theory Spec2Isabelle
  imports Main
begin

section \<open>JavaScript values\<close>

text \<open>
  The token endpoint of the launcher (\<^verbatim>\<open>backend/routes/auth/token.ts\<close>) is a class
  \<^verbatim>\<open>TokenHandler\<close> whose methods throw on the first failing check. A method that may
  throw returns a sum here, \<open>Inl\<close> carrying what was thrown.

  Strings are lists of 8-bit characters; text outside ASCII is carried as its UTF-8 bytes.
  A property that is \<^verbatim>\<open>undefined\<close> is \<open>None\<close>. JSON documents (a fetched key set, the
  launch context, the claims of a client assertion) are values of type \<open>json\<close>; the
  properties of an object are an association list read with \<open>map_of\<close>.
\<close>

datatype json =
    JNull
  | JBool bool
  | JNum int
  | JStr string
  | JArr "json list"
  | JObj "(string \<times> json) list"

text \<open>JavaScript truthiness, which every \<^verbatim>\<open>if (!x)\<close> of the source tests.\<close>

fun truthy :: "json \<Rightarrow> bool" where
  "truthy JNull = False"
| "truthy (JBool b) = b"
| "truthy (JNum n) = (n \<noteq> 0)"
| "truthy (JStr s) = (s \<noteq> [])"
| "truthy (JArr xs) = True"
| "truthy (JObj kvs) = True"

definition truthy_opt :: "json option \<Rightarrow> bool" where
  "truthy_opt v = (case v of None \<Rightarrow> False | Some j \<Rightarrow> truthy j)"

text \<open>A string-typed property is truthy when it is defined and not the empty string.\<close>

definition present :: "string option \<Rightarrow> bool" where
  "present v = (case v of None \<Rightarrow> False | Some s \<Rightarrow> s \<noteq> [])"

text \<open>A number-typed property is truthy when it is defined and not zero.\<close>

definition present_num :: "int option \<Rightarrow> bool" where
  "present_num v = (case v of None \<Rightarrow> False | Some n \<Rightarrow> n \<noteq> 0)"

text \<open>
  Reading one of the properties \<^verbatim>\<open>alg\<close>, \<^verbatim>\<open>kid\<close>, \<^verbatim>\<open>keys\<close> of a value that is not
  \<^verbatim>\<open>null\<close>: an object gives its own property, any other value gives \<^verbatim>\<open>undefined\<close>.
  The same read of \<^verbatim>\<open>hasOwnProperty\<close> tells whether an object of parsed JSON has a
  property of its own in the place of the inherited method.
\<close>

fun getprop :: "json \<Rightarrow> string \<Rightarrow> json option" where
  "getprop (JObj kvs) p = map_of kvs p"
| "getprop v p = None"

text \<open>
  Strict equality \<^verbatim>\<open>a === b\<close> of two values that come from different places of parsed
  JSON: primitives compare by value, two objects or arrays are never the same reference.
\<close>

definition strict_eq :: "json option \<Rightarrow> json option \<Rightarrow> bool" where
  "strict_eq a b =
     (case (a, b) of
        (None, None) \<Rightarrow> True
      | (Some JNull, Some JNull) \<Rightarrow> True
      | (Some (JBool x), Some (JBool y)) \<Rightarrow> x = y
      | (Some (JNum x), Some (JNum y)) \<Rightarrow> x = y
      | (Some (JStr x), Some (JStr y)) \<Rightarrow> x = y
      | _ \<Rightarrow> False)"

section \<open>Errors\<close>

datatype error_kind = InvalidClient | InvalidRequest | OAuth

record oauth_error =
  kind :: error_kind
  message :: string
  status :: nat
  errorId :: string

text \<open>
  Modelled from the spec: the error classes of \<^verbatim>\<open>backend/errors\<close>, which is not among
  the sources. An error has a kind, an HTTP status, an OAuth error identifier and a message;
  \<^verbatim>\<open>InvalidClientError\<close> has the identifier \<^verbatim>\<open>invalid_client\<close> and
  \<^verbatim>\<open>InvalidRequestError\<close> has \<^verbatim>\<open>invalid_request\<close>, while the caller of
  \<^verbatim>\<open>OAuthError\<close> gives one. Every \<^verbatim>\<open>throw\<close> of the handler sets the status with
  \<^verbatim>\<open>.status(n)\<close>, so the status is an argument here. The message is the format string of
  the source; the values interpolated for \<^verbatim>\<open>%s\<close> are not kept.
\<close>

definition InvalidClientError :: "string \<Rightarrow> nat \<Rightarrow> oauth_error" where
  "InvalidClientError msg st =
     \<lparr>kind = InvalidClient, message = msg, status = st, errorId = ''invalid_client''\<rparr>"

definition InvalidRequestError :: "string \<Rightarrow> nat \<Rightarrow> oauth_error" where
  "InvalidRequestError msg st =
     \<lparr>kind = InvalidRequest, message = msg, status = st, errorId = ''invalid_request''\<rparr>"

definition OAuthError :: "string \<Rightarrow> nat \<Rightarrow> string \<Rightarrow> oauth_error" where
  "OAuthError msg st eid = \<lparr>kind = OAuth, message = msg, status = st, errorId = eid\<rparr>"

text \<open>
  What a method throws: one of the errors above, or an exception of the runtime that the
  handler does not catch (\<^verbatim>\<open>TypeError\<close> on a property read of \<^verbatim>\<open>null\<close> or a call of a
  missing method, \<^verbatim>\<open>URIError\<close> from \<^verbatim>\<open>decodeURIComponent\<close>).
\<close>

datatype exn = Thrown oauth_error | TypeError | URIError

section \<open>Data model\<close>

text \<open>
  The decoded claims of the \<^verbatim>\<open>code\<close> or \<^verbatim>\<open>refresh_token\<close> string
  (\<^verbatim>\<open>SMART.AuthorizationToken\<close>). \<^verbatim>\<open>jwks\<close> is an inline key set, an object or its JSON
  text (\<open>JStr\<close>); \<^verbatim>\<open>context\<close> is the launch context, an object whose properties are
  spread into the response; \<^verbatim>\<open>accessTokensExpireIn\<close> is in minutes. The object that
  \<^verbatim>\<open>jwt.verify\<close> returns is not limited to these properties (\<^verbatim>\<open>handleRefreshToken\<close>
  types it \<^verbatim>\<open>any\<close>): \<open>other_claims\<close> holds every claim it carries besides them, such
  as the registered claims \<^verbatim>\<open>iat\<close> and \<^verbatim>\<open>exp\<close> that \<^verbatim>\<open>jwt.sign\<close> adds to what it
  signs. An object literal of the handler has no such claims.
\<close>

record AuthorizationToken =
  redirect_uri :: "string option"
  code_challenge :: "string option"
  code_challenge_method :: "string option"
  client_id :: "string option"
  client_secret :: "string option"
  jwks_url :: "string option"
  jwks :: "json option"
  scope :: "string option"
  user :: "string option"
  "context" :: "(string \<times> json) list option"
  nonce :: "string option"
  accessTokensExpireIn :: "int option"
  auth_error :: "string option"
  other_claims :: "(string \<times> json) list"

text \<open>The header of a client assertion (\<^verbatim>\<open>JwtHeader\<close> of jsonwebtoken).\<close>

record JwtHeader =
  "typ" :: "string option"
  kid :: "string option"
  alg :: "string option"
  jku :: "string option"

text \<open>The claims that \<^verbatim>\<open>createIdToken\<close> signs.\<close>

record IdTokenPayload =
  profile :: "string option"
  fhirUser :: "string option"
  aud :: "string option"
  sub :: string
  iss :: string

text \<open>
  What \<^verbatim>\<open>jwt.sign\<close> is given: the claims, and the options \<^verbatim>\<open>algorithm\<close> and
  \<^verbatim>\<open>expiresIn\<close> (a number is a count of seconds; the ID token gives the text
  \<^verbatim>\<open>"<n> minutes"\<close>).
\<close>

datatype claims = TokenClaims AuthorizationToken | IdClaims IdTokenPayload

datatype expiry = Seconds int | Minutes int

record sign_options =
  algorithm :: "string option"
  expiresIn :: expiry

text \<open>
  The outcome of \<^verbatim>\<open>fetch\<close>: the promise rejects (a transport failure), or resolves to a
  response with its \<^verbatim>\<open>ok\<close> flag, status and status text; \<open>res_json\<close> is what
  \<^verbatim>\<open>res.json()\<close> gives, \<open>None\<close> when the body is not JSON and the call rejects.
\<close>

datatype fetch_result =
    Rejected string
  | Resolved (res_ok: bool) (res_status: nat) (res_statusText: string) (res_json: "json option")

text \<open>A request issued with \<^verbatim>\<open>fetch\<close>: the URL and the headers given.\<close>

type_synonym fetch_request = "string \<times> (string \<times> string) list"

text \<open>The configuration module \<^verbatim>\<open>backend/config\<close>, of which the handler reads these values.\<close>

record config =
  jwtSecret :: string
  privateKeyAsPem :: string
  supportedAlgorithms :: "string list"
  accessTokenLifetime :: int
  refreshTokenLifeTime :: int

text \<open>
  The libraries and the network the handler calls are parameters: jsonwebtoken
  (\<^verbatim>\<open>jwt.verify\<close> with the symmetric secret, \<open>None\<close> when it throws; \<^verbatim>\<open>jwt.sign\<close>,
  which is taken to return the signed string;
  \<^verbatim>\<open>jwt.decode\<close> of a client assertion into its header and claims, with the types the
  handler casts them to (\<^verbatim>\<open>JwtHeader\<close> and \<^verbatim>\<open>Record<string, any>\<close>), \<open>None\<close> when it
  gives \<^verbatim>\<open>null\<close>; \<^verbatim>\<open>jwt.verify\<close> of the assertion against a PEM key and a list of algorithms),
  node-jose (\<^verbatim>\<open>JWK.asKey\<close>, \<open>None\<close> when it rejects; \<^verbatim>\<open>toPEM\<close>;
  \<^verbatim>\<open>util.base64url.encode\<close>), \<^verbatim>\<open>crypto\<close> (the SHA-256 digest and its hexadecimal
  form), \<^verbatim>\<open>Buffer.from(s, "base64").toString()\<close>, \<^verbatim>\<open>JSON.parse\<close> (\<open>None\<close> when it
  throws) and \<^verbatim>\<open>fetch\<close>.
\<close>

record env =
  config :: config
  jwt_verify :: "string \<Rightarrow> string \<Rightarrow> AuthorizationToken option"
  jwt_sign :: "claims \<Rightarrow> string \<Rightarrow> sign_options \<Rightarrow> string"
  jwt_decode :: "string \<Rightarrow> (JwtHeader \<times> (string \<times> json) list) option"
  jwt_verify_key :: "string \<Rightarrow> string \<Rightarrow> string list \<Rightarrow> bool"
  asKey :: "json \<Rightarrow> json option"
  toPEM :: "json \<Rightarrow> string"
  base64url_encode :: "string \<Rightarrow> string"
  sha256 :: "string \<Rightarrow> string"
  sha256_hex :: "string \<Rightarrow> string"
  base64_decode :: "string \<Rightarrow> string"
  JSON_parse :: "string \<Rightarrow> json option"
  fetch :: "string \<Rightarrow> (string \<times> string) list \<Rightarrow> fetch_result"

text \<open>
  The request: the parsed form body and the headers are dictionaries of strings,
  \<^verbatim>\<open>originalUrl\<close> and \<^verbatim>\<open>baseUrl\<close> are those of Express.
\<close>

record Request =
  body :: "string \<rightharpoonup> string"
  headers :: "string \<rightharpoonup> string"
  originalUrl :: string
  req_baseUrl :: string

text \<open>The handler: its request and the base URL computed from it by the constructor.\<close>

record TokenHandler =
  request :: Request
  baseUrl :: string

text \<open>What the handler sends: the headers set and the JSON body.\<close>

record Response =
  res_headers :: "(string \<times> string) list"
  res_body :: "string \<rightharpoonup> json"

section \<open>Key selection\<close>

text \<open>
  \<^verbatim>\<open>keys.filter(k => k.p === v)\<close>: the callback reads a property of every element, which
  throws a \<^verbatim>\<open>TypeError\<close> on an element that is \<^verbatim>\<open>null\<close>.
\<close>

definition filter_keys :: "json list \<Rightarrow> string \<Rightarrow> string \<Rightarrow> exn + json list" where
  "filter_keys keys p v =
     (if JNull \<in> set keys then Inl TypeError
      else Inr (filter (\<lambda>k. getprop k p = Some (JStr v)) keys))"

definition pickPublicKey :: "env \<Rightarrow> json list \<Rightarrow> string \<Rightarrow> string \<Rightarrow> exn + json" where
  "pickPublicKey e keys kid' alg' =
     (if keys = [] then Inl (Thrown (InvalidClientError ''No usable keys found'' 401))
      else case filter_keys keys ''alg'' alg' of
        Inl x \<Rightarrow> Inl x
      | Inr keys1 \<Rightarrow>
          if keys1 = []
          then Inl (Thrown (InvalidClientError
                 ''None of the keys found in the JWKS alg equal to %s'' 401))
          else (case filter_keys keys ''kid'' kid' of
            Inl x \<Rightarrow> Inl x
          | Inr keys2 \<Rightarrow>
              (case keys2 of
                 [] \<Rightarrow> Inl (Thrown (InvalidClientError
                         ''None of the keys found in the JWKS kid equal to %s'' 401))
               | k # others \<Rightarrow>
                   if others \<noteq> []
                   then Inl (Thrown (InvalidClientError
                          ''Multiple usable public keys found in the JWKS'' 401))
                   else (case asKey e k of
                           None \<Rightarrow> Inl (Thrown (InvalidClientError
                                     ''No usable public key found in the JWKS. %s'' 401))
                         | Some key \<Rightarrow> Inr key))))"

section \<open>Fetching and validating a key set\<close>

text \<open>
  \<^verbatim>\<open>fetchJwks\<close> returns the document or throws, and issues requests; the second
  component of the result lists the requests issued, in order.
\<close>

definition fetchJwks :: "env \<Rightarrow> string \<Rightarrow> (exn + json) \<times> fetch_request list" where
  "fetchJwks e url =
     ((case fetch e url [(''accept'', ''application/json'')] of
         Rejected m \<Rightarrow>
           Inl (Thrown (InvalidClientError ''Failed to fetch JWKS from %s. %s'' 401))
       | Resolved ok st txt doc \<Rightarrow>
           if \<not> ok
           then Inl (Thrown (InvalidClientError ''Failed to fetch JWKS from %s. %s'' 401))
           else (case doc of
                   None \<Rightarrow>
                     Inl (Thrown (InvalidClientError ''Failed to fetch JWKS from %s. %s'' 401))
                 | Some j \<Rightarrow> Inr j)),
      [(url, [(''accept'', ''application/json'')])])"

fun typeof_object :: "json \<Rightarrow> bool" where
  "typeof_object JNull = True"
| "typeof_object (JArr xs) = True"
| "typeof_object (JObj kvs) = True"
| "typeof_object v = False"

fun isArray :: "json \<Rightarrow> bool" where
  "isArray (JArr xs) = True"
| "isArray v = False"

text \<open>
  \<^verbatim>\<open>jwks.hasOwnProperty("keys")\<close> is a method call on the document: when the document has
  a property \<^verbatim>\<open>hasOwnProperty\<close> of its own, that JSON value is called instead of the
  inherited method, and the call throws a \<^verbatim>\<open>TypeError\<close>.
\<close>

definition validateJwks :: "json \<Rightarrow> exn + unit" where
  "validateJwks j =
     (if \<not> truthy j \<or> \<not> typeof_object j \<or> isArray j
      then Inl (Thrown (InvalidClientError ''JWKS is not an object'' 401))
      else case getprop j ''hasOwnProperty'' of
        Some own \<Rightarrow> Inl TypeError
      | None \<Rightarrow>
          (case getprop j ''keys'' of
             None \<Rightarrow>
               Inl (Thrown (InvalidClientError
                 ''JWKS does not have a \"keys\" property'' 401))
           | Some ks \<Rightarrow>
               if \<not> isArray ks
               then Inl (Thrown (InvalidClientError ''jwks.keys must be an array'' 401))
               else Inr ()))"

section \<open>Client assertions\<close>

text \<open>The value of a string property after it has been tested to be truthy.\<close>

definition str :: "string option \<Rightarrow> string" where
  "str v = (case v of None \<Rightarrow> [] | Some s \<Rightarrow> s)"

text \<open>\<^verbatim>\<open>s.replace(/^https?/, "")\<close>\<close>

definition replace_scheme :: "string \<Rightarrow> string" where
  "replace_scheme s =
     (if take 5 s = ''https'' then drop 5 s
      else if take 4 s = ''http'' then drop 4 s
      else s)"

text \<open>
  The checks of \<^verbatim>\<open>validateClientAssertion\<close> on the decoded header and claims, up to the
  comparison of \<^verbatim>\<open>aud\<close> with the URL of the endpoint. \<^verbatim>\<open>token.aud.replace\<close> is a call
  of a missing method unless \<^verbatim>\<open>aud\<close> is a string.
\<close>

definition checkAssertion ::
  "TokenHandler \<Rightarrow> AuthorizationToken \<Rightarrow> JwtHeader \<Rightarrow> (string \<times> json) list \<Rightarrow> exn + unit"
where
  "checkAssertion h client jwtHeaders token =
     (if \<not> truthy_opt (map_of token ''iss'')
      then Inl (Thrown (InvalidClientError ''Missing token 'iss' claim'' 401))
      else if \<not> truthy_opt (map_of token ''sub'')
      then Inl (Thrown (InvalidClientError ''Missing token 'sub' claim'' 401))
      else if \<not> truthy_opt (map_of token ''aud'')
      then Inl (Thrown (InvalidClientError ''Missing token 'aud' claim'' 401))
      else if \<not> truthy_opt (map_of token ''exp'')
      then Inl (Thrown (InvalidClientError ''Missing token 'exp' claim'' 401))
      else if \<not> truthy_opt (map_of token ''jti'')
      then Inl (Thrown (InvalidClientError ''Missing token 'jti' claim'' 401))
      else if typ jwtHeaders \<noteq> Some ''JWT''
      then Inl (Thrown (InvalidClientError ''Invalid token 'typ' header. Must be 'JWT'.'' 401))
      else if \<not> present (kid jwtHeaders)
      then Inl (Thrown (InvalidClientError ''Missing token 'kid' header'' 401))
      else if \<not> present (alg jwtHeaders)
      then Inl (Thrown (InvalidClientError ''Missing token 'alg' header'' 401))
      else if auth_error client = Some ''token_expired_registration_token''
      then Inl (Thrown (InvalidClientError ''Registration token expired'' 401))
      else if auth_error client = Some ''token_invalid_jti''
      then Inl (Thrown (InvalidClientError ''Simulated invalid 'jti' value'' 401))
      else if \<not> strict_eq (map_of token ''iss'') (map_of token ''sub'')
      then Inl (Thrown (InvalidClientError
             ''The token sub does not match the token iss claim'' 401))
      else case map_of token ''aud'' of
        Some (JStr a) \<Rightarrow>
          if replace_scheme (baseUrl h @ originalUrl (request h)) \<noteq> replace_scheme a
          then Inl (Thrown (InvalidClientError
                 ''Invalid token 'aud' value (%s). Must be '%s'.'' 401))
          else Inr ()
      | _ \<Rightarrow> Inl TypeError)"

text \<open>
  The key set of the client: from the \<^verbatim>\<open>jku\<close> header when the assertion has one, else
  from the registered \<^verbatim>\<open>jwks_url\<close>, else the inline \<^verbatim>\<open>jwks\<close>.
\<close>

definition resolveJwks ::
  "env \<Rightarrow> AuthorizationToken \<Rightarrow> JwtHeader \<Rightarrow> (exn + json) \<times> fetch_request list"
where
  "resolveJwks e client jwtHeaders =
     (if present (jku jwtHeaders)
      then
        (if present (jwks_url client) \<and> jku jwtHeaders \<noteq> jwks_url client
         then (Inl (Thrown (InvalidClientError
                 (''jku '%s' not whitelisted. Allowed: '%s'' @ [CHR 0x27]) 401)), [])
         else fetchJwks e (str (jku jwtHeaders)))
      else if present (jwks_url client)
      then fetchJwks e (str (jwks_url client))
      else case jwks client of
        None \<Rightarrow>
          (Inl (Thrown (InvalidClientError
             ''No JWKS or JWKS URL found for this client'' 401)), [])
      | Some j \<Rightarrow>
          if \<not> truthy j
          then (Inl (Thrown (InvalidClientError
                  ''No JWKS or JWKS URL found for this client'' 401)), [])
          else (case j of
                  JStr text \<Rightarrow>
                    (case JSON_parse e text of
                       None \<Rightarrow> (Inl (Thrown (InvalidClientError ''Invalid JWKS json'' 401)), [])
                     | Some doc \<Rightarrow> (Inr doc, []))
                | _ \<Rightarrow> (Inr j, [])))"

text \<open>\<^verbatim>\<open>jwks.keys\<close> of a document that \<^verbatim>\<open>validateJwks\<close> has accepted.\<close>

definition jwks_keys :: "json \<Rightarrow> json list" where
  "jwks_keys j = (case getprop j ''keys'' of Some (JArr ks) \<Rightarrow> ks | _ \<Rightarrow> [])"

definition validateClientAssertion ::
  "env \<Rightarrow> TokenHandler \<Rightarrow> string \<Rightarrow> AuthorizationToken \<Rightarrow> (exn + unit) \<times> fetch_request list"
where
  "validateClientAssertion e h clientAssertion client =
     (case jwt_decode e clientAssertion of
        None \<Rightarrow>
          (Inl (Thrown (InvalidRequestError
             ''Could not decode the \"client_assertion\" parameter'' 401)), [])
      | Some (jwtHeaders, token) \<Rightarrow>
          (case checkAssertion h client jwtHeaders token of
             Inl x \<Rightarrow> (Inl x, [])
           | Inr u \<Rightarrow>
               (case resolveJwks e client jwtHeaders of
                  (Inl x, reqs) \<Rightarrow> (Inl x, reqs)
                | (Inr doc, reqs) \<Rightarrow>
                    (case validateJwks doc of
                       Inl x \<Rightarrow> (Inl x, reqs)
                     | Inr u \<Rightarrow>
                         (case pickPublicKey e (jwks_keys doc)
                                 (str (kid jwtHeaders)) (str (alg jwtHeaders)) of
                            Inl x \<Rightarrow> (Inl x, reqs)
                          | Inr key \<Rightarrow>
                              if jwt_verify_key e clientAssertion (toPEM e key)
                                   (supportedAlgorithms (config e))
                              then (Inr (), reqs)
                              else (Inl (Thrown (InvalidClientError
                                      ''Invalid token. %s'' 401)), reqs))))))"

section \<open>Scopes\<close>

text \<open>
  \<^verbatim>\<open>decodeURIComponent\<close> of the runtime: every \<^verbatim>\<open>%XX\<close> is replaced by the octet it
  names; an octet with its top bit set starts a UTF-8 sequence whose other octets must be
  escaped too. A \<^verbatim>\<open>%\<close> that is not followed by two hexadecimal digits, or octets that
  are not the UTF-8 encoding of a code point, make it throw a \<^verbatim>\<open>URIError\<close> (\<open>None\<close>).
\<close>

definition hexval :: "char \<Rightarrow> nat option" where
  "hexval c =
     (let n = (of_char c :: nat) in
      if 48 \<le> n \<and> n \<le> 57 then Some (n - 48)
      else if 65 \<le> n \<and> n \<le> 70 then Some (n - 55)
      else if 97 \<le> n \<and> n \<le> 102 then Some (n - 87)
      else None)"

fun escape :: "string \<Rightarrow> (nat \<times> string) option" where
  "escape (p # a # b # rest) =
     (if p = CHR ''%''
      then (case hexval a of
              None \<Rightarrow> None
            | Some hi \<Rightarrow>
                (case hexval b of None \<Rightarrow> None | Some lo \<Rightarrow> Some (16 * hi + lo, rest)))
      else None)"
| "escape s = None"

fun continuation :: "nat \<Rightarrow> string \<Rightarrow> (nat list \<times> string) option" where
  "continuation 0 s = Some ([], s)"
| "continuation (Suc n) s =
     (case escape s of
        None \<Rightarrow> None
      | Some (b, rest) \<Rightarrow>
          if b div 64 \<noteq> 2 then None
          else (case continuation n rest of
                  None \<Rightarrow> None
                | Some (bs, rest') \<Rightarrow> Some (b # bs, rest')))"

definition leading_ones :: "nat \<Rightarrow> nat" where
  "leading_ones b =
     (if b < 128 then 0 else if b < 192 then 1 else if b < 224 then 2
      else if b < 240 then 3 else if b < 248 then 4 else 5)"

text \<open>
  The octets of one sequence encode a code point in the shortest form, not a surrogate
  and not beyond \<^verbatim>\<open>U+10FFFF\<close>.
\<close>

fun valid_utf8 :: "nat list \<Rightarrow> bool" where
  "valid_utf8 [a, b] = (128 \<le> (a mod 32) * 64 + b mod 64)"
| "valid_utf8 [a, b, c] =
     (let cp = (a mod 16) * 4096 + (b mod 64) * 64 + c mod 64
      in 2048 \<le> cp \<and> \<not> (55296 \<le> cp \<and> cp \<le> 57343))"
| "valid_utf8 [a, b, c, d] =
     (let cp = (a mod 8) * 262144 + (b mod 64) * 4096 + (c mod 64) * 64 + d mod 64
      in 65536 \<le> cp \<and> cp \<le> 1114111)"
| "valid_utf8 bs = False"

function decodeURIComponent :: "string \<Rightarrow> string option" where
  "decodeURIComponent [] = Some []"
| "decodeURIComponent (c # cs) =
     (if c \<noteq> CHR ''%'' then map_option ((#) c) (decodeURIComponent cs)
      else case escape (c # cs) of
        None \<Rightarrow> None
      | Some (b, rest) \<Rightarrow>
          if leading_ones b = 0
          then map_option ((#) (char_of b)) (decodeURIComponent rest)
          else if leading_ones b = 1 \<or> 4 < leading_ones b then None
          else (case continuation (leading_ones b - 1) rest of
                  None \<Rightarrow> None
                | Some (bs, rest') \<Rightarrow>
                    if valid_utf8 (b # bs)
                    then map_option ((@) (map char_of (b # bs))) (decodeURIComponent rest')
                    else None))"
  by pat_completeness auto
termination
proof -
  have escape_shorter: "length rest < length s"
    if "escape s = Some (b, rest)" for s b rest
    using that by (induction s rule: escape.induct) (auto split: if_splits option.splits)
  have continuation_shorter: "length rest \<le> length s"
    if "continuation n s = Some (bs, rest)" for n s bs rest
    using that
  proof (induction n arbitrary: s bs rest)
    case 0
    then show ?case by simp
  next
    case (Suc n)
    then show ?case
      by (fastforce split: option.splits if_splits dest: escape_shorter)
  qed
  show ?thesis
  proof (relation "measure length")
    show "wf (measure length)" by simp
  next
    fix c :: char and cs
    show "(cs, c # cs) \<in> measure length" by simp
  next
    fix c :: char and cs x2 b rest
    assume "escape (c # cs) = Some x2" "(b, rest) = x2"
    then have "length rest < length (c # cs)" using escape_shorter by metis
    then show "(rest, c # cs) \<in> measure length" by simp
  next
    fix c :: char and cs x2 b rest x2a bs rest'
    assume "escape (c # cs) = Some x2" "(b, rest) = x2"
      "continuation (leading_ones b - 1) rest = Some x2a" "(bs, rest') = x2a"
    then have "length rest < length (c # cs)" "length rest' \<le> length rest"
      using escape_shorter continuation_shorter by metis+
    then show "(rest', c # cs) \<in> measure length" by simp
  qed
qed

text \<open>\<^verbatim>\<open>s.split(c)\<close> with a separator of one character.\<close>

fun split :: "char \<Rightarrow> string \<Rightarrow> string list" where
  "split c [] = [[]]"
| "split c (x # xs) =
     (if x = c then [] # split c xs
      else (case split c xs of [] \<Rightarrow> [[x]] | p # ps \<Rightarrow> (x # p) # ps))"

text \<open>
  Modelled from the spec: the class \<^verbatim>\<open>ScopeSet\<close> of \<^verbatim>\<open>src/isomorphic/ScopeSet\<close>, which
  is not among the sources. It parses a space-delimited scope string into a set, and
  \<^verbatim>\<open>has\<close> tells whether a scope is in the set.
\<close>

definition ScopeSet :: "string \<Rightarrow> string list" where
  "ScopeSet s = split CHR '' '' s"

definition has :: "string list \<Rightarrow> string \<Rightarrow> bool" where
  "has sc name = (name \<in> set sc)"

section \<open>Basic authentication\<close>

text \<open>
  The regular expression \<^verbatim>\<open>/^basic\s*/i\<close>: it matches at index 0 when the header starts
  with the letters of \<^verbatim>\<open>basic\<close> in either case, and the match takes the white space
  that follows them. Of the white space of \<^verbatim>\<open>\s\<close>, the ASCII characters are modelled.
\<close>

definition lower :: "char \<Rightarrow> char" where
  "lower c =
     (let n = (of_char c :: nat) in if 65 \<le> n \<and> n \<le> 90 then char_of (n + 32) else c)"

definition search_basic :: "string \<Rightarrow> bool" where
  "search_basic s = (map lower (take 5 s) = ''basic'')"

definition white_space :: "char \<Rightarrow> bool" where
  "white_space c = ((of_char c :: nat) \<in> {9, 10, 11, 12, 13, 32})"

definition replace_basic :: "string \<Rightarrow> string" where
  "replace_basic s = (if search_basic s then dropWhile white_space (drop 5 s) else s)"

definition validateBasicAuth :: "env \<Rightarrow> TokenHandler \<Rightarrow> AuthorizationToken \<Rightarrow> exn + unit" where
  "validateBasicAuth e h authorizationToken =
     (if auth_error authorizationToken = Some ''auth_invalid_client_secret''
      then Inl (Thrown (InvalidClientError ''Simulated invalid client secret error'' 401))
      else
        let secret = client_secret authorizationToken;
            authHeader = headers (request h) ''authorization''
        in
          if \<not> present authHeader \<or> \<not> search_basic (str authHeader)
          then
            (if present secret
             then Inl (Thrown (InvalidRequestError
                    ''Basic authentication is required for confidential clients'' 401))
             else Inr ())
          else
            let auth = replace_basic (str authHeader) in
              if auth = []
              then Inl (Thrown (InvalidRequestError
                     ''The authorization header '%s' cannot be empty'' 401))
              else
                (case split CHR '':'' (base64_decode e auth) of
                   [id', secret'] \<Rightarrow>
                     if present (client_id authorizationToken)
                        \<and> client_id authorizationToken \<noteq> Some id'
                     then Inl (Thrown (InvalidClientError
                            ''Invalid client_id in the basic auth header'' 401))
                     else if secret \<noteq> Some secret'
                     then Inl (Thrown (InvalidClientError
                            ''Invalid client_secret in the basic auth header'' 401))
                     else Inr ()
                 | _ \<Rightarrow>
                     Inl (Thrown (InvalidRequestError
                       (''The decoded header must contain '{client_id}:{client_secret}''
                          @ [CHR 0x27]) 401))))"

section \<open>Issuing tokens\<close>

text \<open>
  \<^verbatim>\<open>createIdToken\<close> hashes the user, and the hash throws a \<^verbatim>\<open>TypeError\<close> when given
  \<^verbatim>\<open>undefined\<close>.
\<close>

definition createIdToken :: "env \<Rightarrow> TokenHandler \<Rightarrow> AuthorizationToken \<Rightarrow> exn + string" where
  "createIdToken e h clientDetailsToken =
     (case user clientDetailsToken of
        None \<Rightarrow> Inl TypeError
      | Some u \<Rightarrow>
          Inr (jwt_sign e
                 (IdClaims
                    \<lparr>profile = user clientDetailsToken,
                     fhirUser = user clientDetailsToken,
                     aud = client_id clientDetailsToken,
                     sub = sha256_hex e u,
                     iss = baseUrl h @ req_baseUrl (request h) @ ''/fhir''\<rparr>)
                 (privateKeyAsPem (config e))
                 \<lparr>algorithm = Some ''RS256'',
                  expiresIn = Minutes
                    (if present_num (accessTokensExpireIn clientDetailsToken)
                     then (case accessTokensExpireIn clientDetailsToken of
                             Some n \<Rightarrow> n | None \<Rightarrow> 60)
                     else 60)\<rparr>))"

text \<open>The object \<^verbatim>\<open>token\<close> that \<^verbatim>\<open>generateRefreshToken\<close> builds and signs.\<close>

definition refreshTokenClaims :: "AuthorizationToken \<Rightarrow> AuthorizationToken" where
  "refreshTokenClaims code =
     \<lparr>redirect_uri = None, code_challenge = None, code_challenge_method = None,
      client_id = None, client_secret = None, jwks_url = None, jwks = None,
      scope = scope code,
      user = user code,
      context = context code,
      nonce = None, accessTokensExpireIn = None,
      auth_error = auth_error code,
      other_claims = []\<rparr>"

definition generateRefreshToken :: "env \<Rightarrow> AuthorizationToken \<Rightarrow> string" where
  "generateRefreshToken e code =
     jwt_sign e (TokenClaims (refreshTokenClaims code)) (jwtSecret (config e))
       \<lparr>algorithm = None, expiresIn = Seconds (refreshTokenLifeTime (config e) * 60)\<rparr>"

text \<open>The claims that \<^verbatim>\<open>finish\<close> signs as the access token.\<close>

definition accessTokenClaims :: "AuthorizationToken \<Rightarrow> AuthorizationToken" where
  "accessTokenClaims authorizationToken =
     \<lparr>redirect_uri = None,
      code_challenge = code_challenge authorizationToken,
      code_challenge_method = code_challenge_method authorizationToken,
      client_id = None,
      client_secret = client_secret authorizationToken,
      jwks_url = jwks_url authorizationToken,
      jwks = jwks authorizationToken,
      scope = scope authorizationToken,
      user = None, context = None,
      nonce = nonce authorizationToken,
      accessTokensExpireIn = None,
      auth_error = auth_error authorizationToken,
      other_claims = []\<rparr>"

text \<open>
  The response object of \<^verbatim>\<open>finish\<close> is a dictionary; a property set to \<^verbatim>\<open>undefined\<close>
  is left out of the JSON that is sent, and is absent here. The context is spread over the
  properties written before it, \<^verbatim>\<open>sim_error\<close> and \<^verbatim>\<open>access_token\<close> are assigned after.
\<close>

definition spread :: "(string \<times> json) list option \<Rightarrow> (string \<rightharpoonup> json)" where
  "spread c = (case c of None \<Rightarrow> Map.empty | Some kvs \<Rightarrow> map_of kvs)"

text \<open>The constant \<^verbatim>\<open>expiresIn\<close> of \<^verbatim>\<open>finish\<close>, in seconds.\<close>

definition expires :: "env \<Rightarrow> AuthorizationToken \<Rightarrow> int" where
  "expires e authorizationToken =
     (if present_num (accessTokensExpireIn authorizationToken)
      then (case accessTokensExpireIn authorizationToken of Some n \<Rightarrow> n * 60 | None \<Rightarrow> 0)
      else accessTokenLifetime (config e) * 60)"

text \<open>
  The object \<^verbatim>\<open>tokenResponse\<close> of \<^verbatim>\<open>finish\<close>, from the values computed for
  \<^verbatim>\<open>expires_in\<close>, \<^verbatim>\<open>id_token\<close> and \<^verbatim>\<open>refresh_token\<close>: the object literal with the
  context spread last, then the assignment of \<^verbatim>\<open>sim_error\<close>, then that of
  \<^verbatim>\<open>access_token\<close>.
\<close>

definition tokenResponse ::
  "env \<Rightarrow> AuthorizationToken \<Rightarrow> int \<Rightarrow> string option \<Rightarrow> string option \<Rightarrow> (string \<rightharpoonup> json)"
where
  "tokenResponse e authorizationToken expiresIn' id_token refresh_token =
     (let literal =
            (Map.empty
               (''access_token'' \<mapsto> JStr [],
                ''token_type'' \<mapsto> JStr ''Bearer'',
                ''expires_in'' \<mapsto> JNum expiresIn',
                ''scope'' := map_option JStr (scope authorizationToken),
                ''id_token'' := map_option JStr id_token,
                ''refresh_token'' := map_option JStr refresh_token))
            ++ spread (context authorizationToken);
          with_sim_error =
            (if auth_error authorizationToken = Some ''request_invalid_token''
             then literal(''sim_error'' \<mapsto> JStr ''Invalid token'')
             else if auth_error authorizationToken = Some ''request_expired_token''
             then literal(''sim_error'' \<mapsto> JStr ''Token expired'')
             else literal)
      in with_sim_error
           (''access_token'' \<mapsto> JStr
              (jwt_sign e (TokenClaims (accessTokenClaims authorizationToken))
                 (jwtSecret (config e))
                 \<lparr>algorithm = None, expiresIn = Seconds expiresIn'\<rparr>)))"

definition finish :: "env \<Rightarrow> TokenHandler \<Rightarrow> AuthorizationToken \<Rightarrow> exn + Response" where
  "finish e h authorizationToken =
     (case validateBasicAuth e h authorizationToken of
        Inl x \<Rightarrow> Inl x
      | Inr u \<Rightarrow>
          if auth_error authorizationToken = Some ''token_invalid_token''
          then Inl (Thrown (InvalidClientError ''Simulated invalid client error'' 401))
          else
            (case decodeURIComponent
                    (case scope authorizationToken of None \<Rightarrow> ''undefined'' | Some s \<Rightarrow> s) of
               None \<Rightarrow> Inl URIError
             | Some decoded \<Rightarrow>
                 (case (if present (user authorizationToken) \<and> has (ScopeSet decoded) ''openid''
                           \<and> (has (ScopeSet decoded) ''profile''
                                \<or> has (ScopeSet decoded) ''fhirUser'')
                        then map_sum id Some (createIdToken e h authorizationToken)
                        else Inr None) of
                    Inl x \<Rightarrow> Inl x
                  | Inr id_token \<Rightarrow>
                      Inr \<lparr>res_headers =
                             [(''Cache-Control'', ''no-store''), (''Pragma'', ''no-cache'')],
                           res_body =
                             tokenResponse e authorizationToken
                               (expires e authorizationToken) id_token
                               (if has (ScopeSet decoded) ''offline_access''
                                   \<or> has (ScopeSet decoded) ''online_access''
                                then Some (generateRefreshToken e authorizationToken)
                                else None)\<rparr>)))"

text \<open>
  A property of the JSON body that the handler sends; \<open>None\<close> when the property is absent
  or the handler throws instead.
\<close>

definition sent :: "exn + Response \<Rightarrow> string \<Rightarrow> json option" where
  "sent outcome k = (case outcome of Inl x \<Rightarrow> None | Inr r \<Rightarrow> res_body r k)"

section \<open>The grants\<close>

text \<open>
  The \<^verbatim>\<open>try\<close> block of \<^verbatim>\<open>handleRefreshToken\<close>: \<^verbatim>\<open>jwt.verify\<close> throws on a token that
  is missing as on one that does not verify, and either is caught.
\<close>

definition verifyRefreshToken :: "env \<Rightarrow> TokenHandler \<Rightarrow> exn + AuthorizationToken" where
  "verifyRefreshToken e h =
     (case body (request h) ''refresh_token'' of
        None \<Rightarrow> Inl (Thrown (OAuthError ''Invalid refresh token'' 401 ''invalid_grant''))
      | Some t \<Rightarrow>
          (case jwt_verify e t (jwtSecret (config e)) of
             None \<Rightarrow> Inl (Thrown (OAuthError ''Invalid refresh token'' 401 ''invalid_grant''))
           | Some token \<Rightarrow> Inr token))"

definition handleRefreshToken :: "env \<Rightarrow> TokenHandler \<Rightarrow> exn + Response" where
  "handleRefreshToken e h =
     (case verifyRefreshToken e h of
        Inl x \<Rightarrow> Inl x
      | Inr token \<Rightarrow>
          if auth_error token = Some ''token_expired_refresh_token''
          then Inl (Thrown (OAuthError ''Expired refresh token'' 403 ''invalid_grant''))
          else finish e h token)"

text \<open>
  The PKCE block of \<^verbatim>\<open>handleAuthorizationCode\<close>, entered with the decoded token and the
  \<^verbatim>\<open>code_verifier\<close> parameter.
\<close>

definition checkPKCE :: "env \<Rightarrow> AuthorizationToken \<Rightarrow> string option \<Rightarrow> exn + unit" where
  "checkPKCE e authorizationToken code_verifier =
     (if present (code_challenge_method authorizationToken)
      then
        (if code_challenge_method authorizationToken \<noteq> Some ''S256''
         then Inl (Thrown (InvalidRequestError
                (''Unsupported code_challenge_method '%s'. We support only 'S256'' @ [CHR 0x27])
                400))
         else if \<not> present code_verifier
         then Inl (Thrown (InvalidRequestError ''Missing code_verifier parameter'' 400))
         else if Some (base64url_encode e (sha256 e (str code_verifier)))
                   \<noteq> code_challenge authorizationToken
         then Inl (Thrown (OAuthError
                ''Invalid grant or Invalid PKCE Verifier, '%s' vs '%s'.'' 401 ''invalid_grant''))
         else Inr ())
      else Inr ())"

definition handleAuthorizationCode ::
  "env \<Rightarrow> TokenHandler \<Rightarrow> (exn + Response) \<times> fetch_request list"
where
  "handleAuthorizationCode e h =
     (let payload = body (request h);
          code = payload ''code'';
          redirect_uri' = payload ''redirect_uri'';
          code_verifier = payload ''code_verifier'';
          client_assertion = payload ''client_assertion'';
          client_assertion_type = payload ''client_assertion_type''
      in
        if \<not> present code
        then (Inl (Thrown (InvalidClientError ''Missing 'code' parameter)'' 400)), [])
        else if \<not> present redirect_uri'
        then (Inl (Thrown (InvalidRequestError ''Missing 'redirect_uri' parameter'' 400)), [])
        else
          (case jwt_verify e (str code) (jwtSecret (config e)) of
             None \<Rightarrow>
               (Inl (Thrown (InvalidClientError
                  ''Invalid token (supplied as code parameter in the POST body). %s'' 401)), [])
           | Some authorizationToken \<Rightarrow>
               if \<not> present (redirect_uri authorizationToken)
               then (Inl (Thrown (InvalidClientError
                       ''The authorization token must include redirect_uri'' 401)), [])
               else if redirect_uri authorizationToken \<noteq> redirect_uri'
               then (Inl (Thrown (InvalidRequestError ''Invalid redirect_uri parameter'' 401)), [])
               else
                 (case checkPKCE e authorizationToken code_verifier of
                    Inl x \<Rightarrow> (Inl x, [])
                  | Inr u \<Rightarrow>
                      if present client_assertion
                         \<and> client_assertion_type
                             = Some ''urn:ietf:params:oauth:client-assertion-type:jwt-bearer''
                      then
                        (case validateClientAssertion e h (str client_assertion)
                                authorizationToken of
                           (Inl x, reqs) \<Rightarrow> (Inl x, reqs)
                         | (Inr u, reqs) \<Rightarrow> (finish e h authorizationToken, reqs))
                      else (finish e h authorizationToken, []))))"

section \<open>An example deployment\<close>

text \<open>
  A configuration and stand-ins for the libraries, on which the handler can be run: the
  tokens that verify under the secret are given by a table, and the network gives one
  answer to every request.
\<close>

definition example_config :: config where
  "example_config =
     \<lparr>jwtSecret = ''secret'', privateKeyAsPem = ''private-key'',
      supportedAlgorithms = [''RS384'', ''ES384''],
      accessTokenLifetime = 60, refreshTokenLifeTime = 525600\<rparr>"

definition example_env :: "(string \<times> AuthorizationToken) list \<Rightarrow> fetch_result \<Rightarrow> env" where
  "example_env tokens answer =
     \<lparr>config = example_config,
      jwt_verify = (\<lambda>t k. if k = ''secret'' then map_of tokens t else None),
      jwt_sign = (\<lambda>c k opts. case c of
                    TokenClaims t \<Rightarrow> ''signed-token''
                  | IdClaims i \<Rightarrow> ''signed-id-token''),
      jwt_decode = (\<lambda>a. None),
      jwt_verify_key = (\<lambda>a pem algs. False),
      asKey = Some,
      toPEM = (\<lambda>k. ''public-key''),
      base64url_encode = (\<lambda>s. ''base64url:'' @ s),
      sha256 = (\<lambda>s. ''sha256:'' @ s),
      sha256_hex = (\<lambda>s. ''hex:sha256:'' @ s),
      base64_decode = id,
      JSON_parse = (\<lambda>s. None),
      fetch = (\<lambda>url hs. answer)\<rparr>"

definition example_token :: AuthorizationToken where
  "example_token =
     \<lparr>redirect_uri = Some ''https://app/cb'', code_challenge = None,
      code_challenge_method = None, client_id = Some ''app'', client_secret = None,
      jwks_url = None, jwks = None, scope = Some ''openid profile offline_access'',
      user = Some ''Practitioner/1'', context = Some [(''patient'', JStr ''p1'')],
      nonce = None, accessTokensExpireIn = None, auth_error = None,
      other_claims = [(''iat'', JNum 1699999000), (''exp'', JNum 1699999300)]\<rparr>"

text \<open>
  What \<^verbatim>\<open>jwt.verify\<close> returns for the refresh token of the example token, signed at time
  1700000000 with the configured lifetime of 525600 minutes: the four claims that
  \<^verbatim>\<open>generateRefreshToken\<close> signs and the registered claims that \<^verbatim>\<open>jwt.sign\<close> adds,
  \<^verbatim>\<open>iat\<close> and \<^verbatim>\<open>exp = iat + 525600 * 60\<close>.
\<close>

definition example_refresh_claims :: AuthorizationToken where
  "example_refresh_claims =
     \<lparr>redirect_uri = None, code_challenge = None, code_challenge_method = None,
      client_id = None, client_secret = None, jwks_url = None, jwks = None,
      scope = Some ''openid profile offline_access'',
      user = Some ''Practitioner/1'', context = Some [(''patient'', JStr ''p1'')],
      nonce = None, accessTokensExpireIn = None, auth_error = None,
      other_claims = [(''iat'', JNum 1700000000), (''exp'', JNum 1731536000)]\<rparr>"

definition example_handler ::
  "(string \<times> string) list \<Rightarrow> (string \<times> string) list \<Rightarrow> TokenHandler"
where
  "example_handler form hdrs =
     \<lparr>request = \<lparr>body = map_of form, headers = map_of hdrs,
                  originalUrl = ''/auth/token'', req_baseUrl = ''/v/r4''\<rparr>,
      baseUrl = ''https://launcher''\<rparr>"

section \<open>Facts about the example deployment and the response\<close>

lemma example_env_sel:
  "config (example_env tokens answer) = example_config"
  "jwt_verify (example_env tokens answer)
     = (\<lambda>t k. if k = ''secret'' then map_of tokens t else None)"
  "jwt_sign (example_env tokens answer) = (\<lambda>c k opts. case c of
                    TokenClaims t \<Rightarrow> ''signed-token''
                  | IdClaims i \<Rightarrow> ''signed-id-token'')"
  "jwt_decode (example_env tokens answer) = (\<lambda>a. None)"
  "asKey (example_env tokens answer) = Some"
  "base64url_encode (example_env tokens answer) = (\<lambda>s. ''base64url:'' @ s)"
  "sha256 (example_env tokens answer) = (\<lambda>s. ''sha256:'' @ s)"
  "sha256_hex (example_env tokens answer) = (\<lambda>s. ''hex:sha256:'' @ s)"
  "base64_decode (example_env tokens answer) = id"
  "fetch (example_env tokens answer) = (\<lambda>url hs. answer)"
  by (simp_all add: example_env_def)

lemma example_config_sel:
  "jwtSecret example_config = ''secret''"
  "accessTokenLifetime example_config = 60"
  "refreshTokenLifeTime example_config = 525600"
  by (simp_all add: example_config_def)

lemma example_handler_sel:
  "body (request (example_handler form hdrs)) = map_of form"
  "headers (request (example_handler form hdrs)) = map_of hdrs"
  "originalUrl (request (example_handler form hdrs)) = ''/auth/token''"
  "req_baseUrl (request (example_handler form hdrs)) = ''/v/r4''"
  "baseUrl (example_handler form hdrs) = ''https://launcher''"
  by (simp_all add: example_handler_def)

lemma createIdToken_present:
  "present (user tok) \<Longrightarrow> \<exists>s. createIdToken e h tok = Inr s"
  by (cases "user tok") (simp_all add: createIdToken_def present_def)

lemma finish_Inr:
  assumes "finish e h tok = Inr r"
  obtains d idt where
    "decodeURIComponent (case scope tok of None \<Rightarrow> ''undefined'' | Some s \<Rightarrow> s) = Some d"
    "res_body r =
         tokenResponse e tok (expires e tok)
           (if present (user tok) \<and> has (ScopeSet d) ''openid''
                \<and> (has (ScopeSet d) ''profile'' \<or> has (ScopeSet d) ''fhirUser'')
            then Some idt else None)
           (if has (ScopeSet d) ''offline_access'' \<or> has (ScopeSet d) ''online_access''
            then Some (generateRefreshToken e tok) else None)"
proof -
  obtain u where vb: "validateBasicAuth e h tok = Inr u"
    using assms by (cases "validateBasicAuth e h tok") (simp_all add: finish_def)
  have ne: "auth_error tok \<noteq> Some ''token_invalid_token''"
    using assms vb by (auto simp: finish_def)
  obtain d where d: "decodeURIComponent (case scope tok of None \<Rightarrow> ''undefined'' | Some s \<Rightarrow> s) = Some d"
    using assms vb ne
    by (cases "decodeURIComponent (case scope tok of None \<Rightarrow> ''undefined'' | Some s \<Rightarrow> s)")
       (simp_all add: finish_def)
  let ?C = "present (user tok) \<and> has (ScopeSet d) ''openid''
                \<and> (has (ScopeSet d) ''profile'' \<or> has (ScopeSet d) ''fhirUser'')"
  let ?rt = "if has (ScopeSet d) ''offline_access'' \<or> has (ScopeSet d) ''online_access''
            then Some (generateRefreshToken e tok) else None"
  have f: "finish e h tok =
      (case (if ?C then map_sum id Some (createIdToken e h tok) else Inr None) of
         Inl x \<Rightarrow> Inl x
       | Inr id_token \<Rightarrow>
           Inr \<lparr>res_headers = [(''Cache-Control'', ''no-store''), (''Pragma'', ''no-cache'')],
                res_body = tokenResponse e tok (expires e tok) id_token ?rt\<rparr>)"
    by (simp add: finish_def vb ne d)
  show ?thesis
  proof (cases ?C)
    case True
    then obtain s where s: "createIdToken e h tok = Inr s"
      using createIdToken_present by blast
    have b: "res_body r = tokenResponse e tok (expires e tok) (Some s) ?rt"
      using assms True unfolding f s by auto
    have c: "(if ?C then Some s else None) = Some s"
      using True by (rule if_P)
    have "res_body r = tokenResponse e tok (expires e tok) (if ?C then Some s else None) ?rt"
      unfolding c by (rule b)
    with d show ?thesis by (rule that)
  next
    case False
    have b: "res_body r = tokenResponse e tok (expires e tok) None ?rt"
      using assms False unfolding f by auto
    have c: "(if ?C then Some [] else None) = None"
      using False by (rule if_not_P)
    have "res_body r = tokenResponse e tok (expires e tok) (if ?C then Some [] else None) ?rt"
      unfolding c by (rule b)
    with d show ?thesis by (rule that)
  qed
qed

lemma tokenResponse_access_token:
  "tokenResponse e tok n idt rt ''access_token''
     = Some (JStr (jwt_sign e (TokenClaims (accessTokenClaims tok)) (jwtSecret (config e))
                   \<lparr>algorithm = None, expiresIn = Seconds n\<rparr>))"
  by (simp add: tokenResponse_def Let_def)

lemma tokenResponse_expires_in:
  "spread (context tok) ''expires_in'' = None \<Longrightarrow>
   tokenResponse e tok n idt rt ''expires_in'' = Some (JNum n)"
  by (simp add: tokenResponse_def Let_def map_add_def)

lemma tokenResponse_id_token:
  "spread (context tok) ''id_token'' = None \<Longrightarrow>
   tokenResponse e tok n idt rt ''id_token'' = map_option JStr idt"
  by (simp add: tokenResponse_def Let_def map_add_def)

lemma tokenResponse_refresh_token:
  "spread (context tok) ''refresh_token'' = None \<Longrightarrow>
   tokenResponse e tok n idt rt ''refresh_token'' = map_option JStr rt"
  by (simp add: tokenResponse_def Let_def map_add_def)

lemma tokenResponse_context:
  "spread (context tok) k = Some v \<Longrightarrow> k \<noteq> ''access_token'' \<Longrightarrow> k \<noteq> ''sim_error'' \<Longrightarrow>
   tokenResponse e tok n idt rt k = Some v"
  by (simp add: tokenResponse_def Let_def map_add_def)

lemma handleAuthorizationCode_pkce_failure:
  assumes "present (body (request h) ''code'')"
    and "present (body (request h) ''redirect_uri'')"
    and "jwt_verify e (str (body (request h) ''code'')) (jwtSecret (config e)) = Some tok"
    and "redirect_uri tok = body (request h) ''redirect_uri''"
    and "checkPKCE e tok (body (request h) ''code_verifier'') = Inl x"
  shows "handleAuthorizationCode e h = (Inl x, [])"
  using assms by (simp add: handleAuthorizationCode_def Let_def)

lemma finish_eval:
  assumes "validateBasicAuth e h tok = Inr ()"
    and "auth_error tok \<noteq> Some ''token_invalid_token''"
    and "decodeURIComponent (case scope tok of None \<Rightarrow> ''undefined'' | Some s \<Rightarrow> s) = Some d"
  shows "finish e h tok =
      (case (if present (user tok) \<and> has (ScopeSet d) ''openid''
                \<and> (has (ScopeSet d) ''profile'' \<or> has (ScopeSet d) ''fhirUser'')
             then map_sum id Some (createIdToken e h tok) else Inr None) of
         Inl x \<Rightarrow> Inl x
       | Inr id_token \<Rightarrow>
           Inr \<lparr>res_headers = [(''Cache-Control'', ''no-store''), (''Pragma'', ''no-cache'')],
                res_body = tokenResponse e tok (expires e tok) id_token
                  (if has (ScopeSet d) ''offline_access'' \<or> has (ScopeSet d) ''online_access''
                   then Some (generateRefreshToken e tok) else None)\<rparr>)"
  using assms by (simp add: finish_def)

lemma validateBasicAuth_no_header:
  assumes "auth_error tok \<noteq> Some ''auth_invalid_client_secret''"
    and "headers (request h) ''authorization'' = None"
  shows "validateBasicAuth e h tok =
      (if present (client_secret tok)
       then Inl (Thrown (InvalidRequestError
                  ''Basic authentication is required for confidential clients'' 401))
       else Inr ())"
  using assms by (simp add: validateBasicAuth_def Let_def present_def)

lemma example_finish:
  assumes "auth_error tok = None" and "client_secret tok = None"
    and "scope tok = Some s" and "decodeURIComponent s = Some d"
  shows "finish (example_env tokens answer) (example_handler form []) tok
   = Inr \<lparr>res_headers = [(''Cache-Control'', ''no-store''), (''Pragma'', ''no-cache'')],
          res_body =
            tokenResponse (example_env tokens answer) tok
              (expires (example_env tokens answer) tok)
              (if present (user tok) \<and> has (ScopeSet d) ''openid''
                   \<and> (has (ScopeSet d) ''profile'' \<or> has (ScopeSet d) ''fhirUser'')
               then Some ''signed-id-token'' else None)
              (if has (ScopeSet d) ''offline_access'' \<or> has (ScopeSet d) ''online_access''
               then Some ''signed-token'' else None)\<rparr>"
proof -
  have vb: "validateBasicAuth (example_env tokens answer) (example_handler form []) tok = Inr ()"
    using assms(1,2) by (simp add: validateBasicAuth_no_header example_handler_sel present_def)
  have ne: "auth_error tok \<noteq> Some ''token_invalid_token''"
    using assms(1) by simp
  have d: "decodeURIComponent (case scope tok of None \<Rightarrow> ''undefined'' | Some s \<Rightarrow> s) = Some d"
    using assms(3,4) by simp
  have idt: "createIdToken (example_env tokens answer) (example_handler form []) tok
             = Inr ''signed-id-token''" if "present (user tok)"
    using that by (cases "user tok") (simp_all add: createIdToken_def example_env_sel present_def)
  have rt: "generateRefreshToken (example_env tokens answer) tok = ''signed-token''"
    by (simp add: generateRefreshToken_def example_env_sel)
  show ?thesis
    unfolding finish_eval [OF vb ne d] rt
    by (auto simp: idt)
qed

lemma example_scopes:
  "ScopeSet ''openid profile offline_access'' = [''openid'', ''profile'', ''offline_access'']"
  "ScopeSet ''openid profile'' = [''openid'', ''profile'']"
  "ScopeSet ''openid'' = [''openid'']"
  "ScopeSet ''offline_access'' = [''offline_access'']"
  "ScopeSet ''launch'' = [''launch'']"
  by (simp_all add: ScopeSet_def)

section \<open>Key selection\<close>

text \<open>
  C1. Key selection is specified as a two-stage filter: the keys whose \<^verbatim>\<open>alg\<close> is the
  requested one, and from those the keys whose \<^verbatim>\<open>kid\<close> is the requested one, so that a
  key set with exactly one key of the requested \<^verbatim>\<open>alg\<close> and \<^verbatim>\<open>kid\<close> selects that key
  even if another key has the same \<^verbatim>\<open>kid\<close> under another \<^verbatim>\<open>alg\<close>. The code filters
  the whole key list by \<^verbatim>\<open>kid\<close> instead (\<^verbatim>\<open>keys.filter\<close>, not \<^verbatim>\<open>_keys.filter\<close>). With
  the keys (kid a, RS256) and (kid a, ES384), selecting (RS256, a) throws the ambiguity error;
  with the keys (kid a, ES384) and (kid b, RS256), selecting (RS256, a) does not throw the
  kid-mismatch error but hands the ES384 key to \<^verbatim>\<open>JWK.asKey\<close>, and returns the key
  that makes of it, or throws the error for an unusable key when \<^verbatim>\<open>JWK.asKey\<close> rejects
  it.
\<close>

theorem pickPublicKey_kid_filter_ignores_alg:
  "pickPublicKey e
     [JObj [(''kid'', JStr ''a''), (''alg'', JStr ''RS256'')],
      JObj [(''kid'', JStr ''a''), (''alg'', JStr ''ES384'')]] ''a'' ''RS256''
   = Inl (Thrown (InvalidClientError ''Multiple usable public keys found in the JWKS'' 401))
   \<and> pickPublicKey e
     [JObj [(''kid'', JStr ''a''), (''alg'', JStr ''ES384'')],
      JObj [(''kid'', JStr ''b''), (''alg'', JStr ''RS256'')]] ''a'' ''RS256''
   = (case asKey e (JObj [(''kid'', JStr ''a''), (''alg'', JStr ''ES384'')]) of
        None \<Rightarrow> Inl (Thrown (InvalidClientError
                  ''No usable public key found in the JWKS. %s'' 401))
      | Some key \<Rightarrow> Inr key)"
  by (simp add: pickPublicKey_def filter_keys_def)

section \<open>Refresh tokens\<close>

text \<open>
  The claim about the round trip of a refresh token as the specification states it, that the
  verified token has the four claims and nothing more, fails: \<^verbatim>\<open>jwt.sign\<close> is called with
  \<^verbatim>\<open>expiresIn\<close> and adds the registered claims \<^verbatim>\<open>iat\<close> and \<^verbatim>\<open>exp\<close> to what it
  signs, and \<^verbatim>\<open>jwt.verify\<close> returns them with the rest. For the refresh token of the
  example token, the token that the refresh path verifies carries \<^verbatim>\<open>iat\<close> and \<^verbatim>\<open>exp\<close>
  besides \<^verbatim>\<open>context\<close>, \<^verbatim>\<open>scope\<close>, \<^verbatim>\<open>user\<close> and \<^verbatim>\<open>auth_error\<close>.
\<close>

theorem refresh_token_registered_claims_counterexample:
  "body (request (example_handler [(''refresh_token'', ''signed-token'')] [])) ''refresh_token''
     = Some (generateRefreshToken
               (example_env [(''signed-token'', example_refresh_claims)] (Rejected []))
               example_token)
   \<and> verifyRefreshToken
        (example_env [(''signed-token'', example_refresh_claims)] (Rejected []))
        (example_handler [(''refresh_token'', ''signed-token'')] [])
      = Inr example_refresh_claims
   \<and> other_claims example_refresh_claims
      = [(''iat'', JNum 1700000000), (''exp'', JNum 1731536000)]"
  by (simp add: verifyRefreshToken_def generateRefreshToken_def example_handler_sel
        example_env_sel example_config_sel example_refresh_claims_def)

text \<open>
  C2, as amended. A refresh token produced by \<^verbatim>\<open>generateRefreshToken(t)\<close> and then
  verified by \<^verbatim>\<open>handleRefreshToken\<close> yields the claims \<^verbatim>\<open>context\<close>, \<^verbatim>\<open>scope\<close>,
  \<^verbatim>\<open>user\<close> and \<^verbatim>\<open>auth_error\<close> of \<open>t\<close>, no other claim of \<open>t\<close>, and besides them only
  the registered claims that \<^verbatim>\<open>jwt.sign\<close> adds: \<^verbatim>\<open>iat\<close>, the time of signing, and
  \<^verbatim>\<open>exp\<close>, that time plus the configured refresh-token lifetime in seconds. The second
  hypothesis is what jsonwebtoken does with the token while it has not expired: verifying,
  with the secret, the string signed with it at time \<open>now\<close> gives back the claims that were
  signed and those two. The verified token is what the refresh path goes on with: it is
  refused when its \<^verbatim>\<open>auth_error\<close> asks for an expired refresh token, and handed to
  \<^verbatim>\<open>finish\<close> otherwise.
\<close>

theorem refresh_token_round_trip:
  assumes "body (request h) ''refresh_token'' = Some (generateRefreshToken e t)"
    and "jwt_verify e
           (jwt_sign e (TokenClaims (refreshTokenClaims t)) (jwtSecret (config e))
              \<lparr>algorithm = None, expiresIn = Seconds (refreshTokenLifeTime (config e) * 60)\<rparr>)
           (jwtSecret (config e))
         = Some ((refreshTokenClaims t)
                   \<lparr>other_claims :=
                      [(''iat'', JNum now),
                       (''exp'', JNum (now + refreshTokenLifeTime (config e) * 60))]\<rparr>)"
  shows "\<exists>token. verifyRefreshToken e h = Inr token
           \<and> context token = context t \<and> scope token = scope t
           \<and> user token = user t \<and> auth_error token = auth_error t
           \<and> redirect_uri token = None \<and> code_challenge token = None
           \<and> code_challenge_method token = None \<and> client_id token = None
           \<and> client_secret token = None \<and> jwks_url token = None \<and> jwks token = None
           \<and> nonce token = None \<and> accessTokensExpireIn token = None
           \<and> other_claims token
               = [(''iat'', JNum now),
                  (''exp'', JNum (now + refreshTokenLifeTime (config e) * 60))]
           \<and> handleRefreshToken e h =
               (if auth_error t = Some ''token_expired_refresh_token''
                then Inl (Thrown (OAuthError ''Expired refresh token'' 403 ''invalid_grant''))
                else finish e h token)"
proof -
  let ?v = "(refreshTokenClaims t)
              \<lparr>other_claims :=
                 [(''iat'', JNum now),
                  (''exp'', JNum (now + refreshTokenLifeTime (config e) * 60))]\<rparr>"
  have v: "verifyRefreshToken e h = Inr ?v"
    using assms by (simp add: verifyRefreshToken_def generateRefreshToken_def)
  show ?thesis
    unfolding handleRefreshToken_def v
    by (rule exI [of _ ?v]) (simp add: refreshTokenClaims_def)
qed

theorem refresh_token_round_trip_witness:
  "body (request (example_handler [(''refresh_token'', ''signed-token'')] [])) ''refresh_token''
     = Some (generateRefreshToken
               (example_env [(''signed-token'', example_refresh_claims)] (Rejected []))
               example_token)
   \<and> jwt_verify (example_env [(''signed-token'', example_refresh_claims)] (Rejected []))
        (jwt_sign (example_env [(''signed-token'', example_refresh_claims)] (Rejected []))
           (TokenClaims (refreshTokenClaims example_token))
           (jwtSecret (config
              (example_env [(''signed-token'', example_refresh_claims)] (Rejected []))))
           \<lparr>algorithm = None,
            expiresIn = Seconds (refreshTokenLifeTime (config
              (example_env [(''signed-token'', example_refresh_claims)] (Rejected []))) * 60)\<rparr>)
        (jwtSecret (config
           (example_env [(''signed-token'', example_refresh_claims)] (Rejected []))))
      = Some ((refreshTokenClaims example_token)
                \<lparr>other_claims :=
                   [(''iat'', JNum 1700000000),
                    (''exp'', JNum (1700000000 + refreshTokenLifeTime (config
                       (example_env [(''signed-token'', example_refresh_claims)]
                          (Rejected []))) * 60))]\<rparr>)
   \<and> (\<exists>token.
         verifyRefreshToken
           (example_env [(''signed-token'', example_refresh_claims)] (Rejected []))
           (example_handler [(''refresh_token'', ''signed-token'')] []) = Inr token
         \<and> context token = context example_token \<and> scope token = scope example_token
         \<and> user token = user example_token \<and> auth_error token = auth_error example_token
         \<and> redirect_uri token = None \<and> code_challenge token = None
         \<and> code_challenge_method token = None \<and> client_id token = None
         \<and> client_secret token = None \<and> jwks_url token = None \<and> jwks token = None
         \<and> nonce token = None \<and> accessTokensExpireIn token = None
         \<and> other_claims token
             = [(''iat'', JNum 1700000000),
                (''exp'', JNum (1700000000 + refreshTokenLifeTime (config
                   (example_env [(''signed-token'', example_refresh_claims)]
                      (Rejected []))) * 60))]
         \<and> handleRefreshToken
              (example_env [(''signed-token'', example_refresh_claims)] (Rejected []))
              (example_handler [(''refresh_token'', ''signed-token'')] []) =
             (if auth_error example_token = Some ''token_expired_refresh_token''
              then Inl (Thrown (OAuthError ''Expired refresh token'' 403 ''invalid_grant''))
              else finish
                (example_env [(''signed-token'', example_refresh_claims)] (Rejected []))
                (example_handler [(''refresh_token'', ''signed-token'')] []) token))"
proof -
  let ?e = "example_env [(''signed-token'', example_refresh_claims)] (Rejected [])"
  let ?h = "example_handler [(''refresh_token'', ''signed-token'')] []"
  have b: "body (request ?h) ''refresh_token'' = Some (generateRefreshToken ?e example_token)"
    by (simp add: example_handler_sel generateRefreshToken_def example_env_sel)
  have v: "jwt_verify ?e
           (jwt_sign ?e (TokenClaims (refreshTokenClaims example_token)) (jwtSecret (config ?e))
              \<lparr>algorithm = None, expiresIn = Seconds (refreshTokenLifeTime (config ?e) * 60)\<rparr>)
           (jwtSecret (config ?e))
         = Some ((refreshTokenClaims example_token)
                   \<lparr>other_claims :=
                      [(''iat'', JNum 1700000000),
                       (''exp'', JNum (1700000000 + refreshTokenLifeTime (config ?e) * 60))]\<rparr>)"
    by (simp add: example_env_sel example_config_sel example_refresh_claims_def
          refreshTokenClaims_def example_token_def)
  show ?thesis
    by (intro conjI) (rule b, rule v, rule refresh_token_round_trip [OF b v])
qed

section \<open>The authorization code grant\<close>

text \<open>
  C3. PKCE validation in the authorization code flow. When the decoded code token carries a
  \<^verbatim>\<open>code_challenge_method\<close>: a method other than the literal \<^verbatim>\<open>S256\<close> is rejected
  with \<^verbatim>\<open>InvalidRequestError\<close> 400 whatever the verifier is; then a missing
  \<^verbatim>\<open>code_verifier\<close> (absent or empty) fails with \<^verbatim>\<open>InvalidRequestError\<close> 400;
  otherwise, for every verifier \<open>V\<close>, validation succeeds iff the base64url encoding of the
  SHA-256 digest of \<open>V\<close> equals the stored \<^verbatim>\<open>code_challenge\<close>, and a mismatch fails with
  \<^verbatim>\<open>OAuthError\<close>, error identifier \<^verbatim>\<open>invalid_grant\<close>, status 401. A failure of the PKCE
  block is the failure of the flow, for a request that has passed the checks before it.
\<close>

theorem pkce_validation:
  assumes "present (code_challenge_method tok)"
  shows "(code_challenge_method tok \<noteq> Some ''S256'' \<longrightarrow>
            (\<forall>v. checkPKCE e tok v = Inl (Thrown (InvalidRequestError
               (''Unsupported code_challenge_method '%s'. We support only 'S256'' @ [CHR 0x27])
               400))))
       \<and> (code_challenge_method tok = Some ''S256'' \<longrightarrow>
            (\<forall>v. \<not> present v \<longrightarrow>
               checkPKCE e tok v
                 = Inl (Thrown (InvalidRequestError ''Missing code_verifier parameter'' 400)))
          \<and> (\<forall>V. V \<noteq> [] \<longrightarrow>
               ((checkPKCE e tok (Some V) = Inr ())
                  = (code_challenge tok = Some (base64url_encode e (sha256 e V))))
             \<and> (code_challenge tok \<noteq> Some (base64url_encode e (sha256 e V)) \<longrightarrow>
                  checkPKCE e tok (Some V)
                    = Inl (Thrown (OAuthError
                        ''Invalid grant or Invalid PKCE Verifier, '%s' vs '%s'.'' 401
                        ''invalid_grant'')))))
       \<and> (\<forall>h x. present (body (request h) ''code'')
             \<and> present (body (request h) ''redirect_uri'')
             \<and> jwt_verify e (str (body (request h) ''code'')) (jwtSecret (config e)) = Some tok
             \<and> redirect_uri tok = body (request h) ''redirect_uri''
             \<and> checkPKCE e tok (body (request h) ''code_verifier'') = Inl x \<longrightarrow>
           handleAuthorizationCode e h = (Inl x, []))"
proof -
  have flow: "handleAuthorizationCode e h = (Inl x, [])"
    if "present (body (request h) ''code'')
          \<and> present (body (request h) ''redirect_uri'')
          \<and> jwt_verify e (str (body (request h) ''code'')) (jwtSecret (config e)) = Some tok
          \<and> redirect_uri tok = body (request h) ''redirect_uri''
          \<and> checkPKCE e tok (body (request h) ''code_verifier'') = Inl x" for h x
    using that by (simp add: handleAuthorizationCode_pkce_failure)
  have checks: "(code_challenge_method tok \<noteq> Some ''S256'' \<longrightarrow>
            (\<forall>v. checkPKCE e tok v = Inl (Thrown (InvalidRequestError
               (''Unsupported code_challenge_method '%s'. We support only 'S256'' @ [CHR 0x27])
               400))))
       \<and> (code_challenge_method tok = Some ''S256'' \<longrightarrow>
            (\<forall>v. \<not> present v \<longrightarrow>
               checkPKCE e tok v
                 = Inl (Thrown (InvalidRequestError ''Missing code_verifier parameter'' 400)))
          \<and> (\<forall>V. V \<noteq> [] \<longrightarrow>
               ((checkPKCE e tok (Some V) = Inr ())
                  = (code_challenge tok = Some (base64url_encode e (sha256 e V))))
             \<and> (code_challenge tok \<noteq> Some (base64url_encode e (sha256 e V)) \<longrightarrow>
                  checkPKCE e tok (Some V)
                    = Inl (Thrown (OAuthError
                        ''Invalid grant or Invalid PKCE Verifier, '%s' vs '%s'.'' 401
                        ''invalid_grant'')))))"
    using assms by (auto simp: checkPKCE_def present_def str_def)
  show ?thesis using checks flow by blast
qed

theorem pkce_validation_witness:
  "present (code_challenge_method (example_token\<lparr>code_challenge_method := Some ''plain''\<rparr>))
   \<and> checkPKCE (example_env [] (Rejected []))
        (example_token\<lparr>code_challenge_method := Some ''plain''\<rparr>) (Some ''Verifier'')
      = Inl (Thrown (InvalidRequestError
          (''Unsupported code_challenge_method '%s'. We support only 'S256'' @ [CHR 0x27]) 400))
   \<and> present (code_challenge_method
        (example_token\<lparr>code_challenge_method := Some ''S256'',
                        code_challenge := Some ''base64url:sha256:Verifier''\<rparr>))
   \<and> checkPKCE (example_env [] (Rejected []))
        (example_token\<lparr>code_challenge_method := Some ''S256'',
                        code_challenge := Some ''base64url:sha256:Verifier''\<rparr>) None
      = Inl (Thrown (InvalidRequestError ''Missing code_verifier parameter'' 400))
   \<and> checkPKCE (example_env [] (Rejected []))
        (example_token\<lparr>code_challenge_method := Some ''S256'',
                        code_challenge := Some ''base64url:sha256:Verifier''\<rparr>) (Some ''Verifier'')
      = Inr ()
   \<and> checkPKCE (example_env [] (Rejected []))
        (example_token\<lparr>code_challenge_method := Some ''S256'',
                        code_challenge := Some ''base64url:sha256:Verifier''\<rparr>) (Some ''Another'')
      = Inl (Thrown (OAuthError
          ''Invalid grant or Invalid PKCE Verifier, '%s' vs '%s'.'' 401 ''invalid_grant''))
   \<and> handleAuthorizationCode
        (example_env [(''code-1'', example_token\<lparr>code_challenge_method := Some ''plain''\<rparr>)]
           (Rejected []))
        (example_handler
           [(''code'', ''code-1''), (''redirect_uri'', ''https://app/cb''),
            (''code_verifier'', ''Verifier'')] [])
      = (Inl (Thrown (InvalidRequestError
           (''Unsupported code_challenge_method '%s'. We support only 'S256'' @ [CHR 0x27])
           400)), [])"
proof -
  let ?e' = "example_env [(''code-1'', example_token\<lparr>code_challenge_method := Some ''plain''\<rparr>)]
               (Rejected [])"
  let ?h = "example_handler
           [(''code'', ''code-1''), (''redirect_uri'', ''https://app/cb''),
            (''code_verifier'', ''Verifier'')] []"
  let ?e = "example_env [] (Rejected [])"
  let ?p = "example_token\<lparr>code_challenge_method := Some ''plain''\<rparr>"
  let ?s = "example_token\<lparr>code_challenge_method := Some ''S256'',
                        code_challenge := Some ''base64url:sha256:Verifier''\<rparr>"
  have pp: "present (code_challenge_method ?p)" by (simp add: present_def)
  have ps: "present (code_challenge_method ?s)" by (simp add: present_def)
  note tp = pkce_validation [OF pp, of ?e]
  note ts = pkce_validation [OF ps, of ?e]
  have mp': "code_challenge_method ?p \<noteq> Some ''S256''" by simp
  have ms: "code_challenge_method ?s = Some ''S256''" by simp
  have 1: "checkPKCE ?e ?p (Some ''Verifier'')
      = Inl (Thrown (InvalidRequestError
          (''Unsupported code_challenge_method '%s'. We support only 'S256'' @ [CHR 0x27]) 400))"
    by (rule tp [THEN conjunct1, THEN mp, OF mp', THEN spec])
  note b = ts [THEN conjunct2, THEN conjunct1, THEN mp, OF ms]
  have np: "\<not> present None" by (simp add: present_def)
  have 2: "checkPKCE ?e ?s None
      = Inl (Thrown (InvalidRequestError ''Missing code_verifier parameter'' 400))"
    by (rule b [THEN conjunct1, THEN spec, THEN mp, OF np])
  have v1: "''Verifier'' \<noteq> []" by simp
  have v2: "''Another'' \<noteq> []" by simp
  have c1: "code_challenge ?s = Some (base64url_encode ?e (sha256 ?e ''Verifier''))"
    by (simp add: example_env_sel)
  have c2: "code_challenge ?s \<noteq> Some (base64url_encode ?e (sha256 ?e ''Another''))"
    by (simp add: example_env_sel)
  have 3: "checkPKCE ?e ?s (Some ''Verifier'') = Inr ()"
    using b [THEN conjunct2, THEN spec, THEN mp, OF v1, THEN conjunct1] c1 by (rule iffD2)
  have 4: "checkPKCE ?e ?s (Some ''Another'')
      = Inl (Thrown (OAuthError
          ''Invalid grant or Invalid PKCE Verifier, '%s' vs '%s'.'' 401 ''invalid_grant''))"
    by (rule b [THEN conjunct2, THEN spec, THEN mp, OF v2, THEN conjunct2, THEN mp, OF c2])
  note tp' = pkce_validation [OF pp, of ?e']
  have 5: "checkPKCE ?e' ?p (body (request ?h) ''code_verifier'')
      = Inl (Thrown (InvalidRequestError
          (''Unsupported code_challenge_method '%s'. We support only 'S256'' @ [CHR 0x27]) 400))"
    by (rule tp' [THEN conjunct1, THEN mp, OF mp', THEN spec])
  have q: "present (body (request ?h) ''code'')
             \<and> present (body (request ?h) ''redirect_uri'')
             \<and> jwt_verify ?e' (str (body (request ?h) ''code'')) (jwtSecret (config ?e')) = Some ?p
             \<and> redirect_uri ?p = body (request ?h) ''redirect_uri''
             \<and> checkPKCE ?e' ?p (body (request ?h) ''code_verifier'')
                 = Inl (Thrown (InvalidRequestError
                     (''Unsupported code_challenge_method '%s'. We support only 'S256''
                        @ [CHR 0x27]) 400))"
    using 5
    by (simp add: example_handler_sel present_def str_def example_env_sel example_config_sel
          example_token_def)
  have 6: "handleAuthorizationCode ?e' ?h
      = (Inl (Thrown (InvalidRequestError
           (''Unsupported code_challenge_method '%s'. We support only 'S256'' @ [CHR 0x27])
           400)), [])"
    by (rule tp' [THEN conjunct2, THEN conjunct2, THEN spec, THEN spec, THEN mp, OF q])
  show ?thesis
    by (intro conjI) (rule pp, rule 1, rule ps, rule 2, rule 3, rule 4, rule 6)
qed

text \<open>
  C5. The checks of the authorization code grant run in a fixed order and the first failure
  is the result: a missing \<^verbatim>\<open>code\<close> parameter gives \<^verbatim>\<open>InvalidClientError\<close> 400; then a
  missing \<^verbatim>\<open>redirect_uri\<close> parameter gives \<^verbatim>\<open>InvalidRequestError\<close> 400; then a code
  that does not verify gives \<^verbatim>\<open>InvalidClientError\<close> 401; then a decoded token without
  \<^verbatim>\<open>redirect_uri\<close> gives \<^verbatim>\<open>InvalidClientError\<close> 401 whatever its other fields are;
  then a token \<^verbatim>\<open>redirect_uri\<close> that is not the same string as the parameter gives
  \<^verbatim>\<open>InvalidRequestError\<close> 401. In each case nothing later is evaluated: the result is this
  error and no request has been issued.
\<close>

theorem authorization_code_checks_in_order:
  "(\<not> present (body (request h) ''code'') \<longrightarrow>
      handleAuthorizationCode e h
        = (Inl (Thrown (InvalidClientError ''Missing 'code' parameter)'' 400)), []))
   \<and> (present (body (request h) ''code'') \<and> \<not> present (body (request h) ''redirect_uri'') \<longrightarrow>
      handleAuthorizationCode e h
        = (Inl (Thrown (InvalidRequestError ''Missing 'redirect_uri' parameter'' 400)), []))
   \<and> (present (body (request h) ''code'') \<and> present (body (request h) ''redirect_uri'')
        \<and> jwt_verify e (str (body (request h) ''code'')) (jwtSecret (config e)) = None \<longrightarrow>
      handleAuthorizationCode e h
        = (Inl (Thrown (InvalidClientError
             ''Invalid token (supplied as code parameter in the POST body). %s'' 401)), []))
   \<and> (\<forall>tok. present (body (request h) ''code'') \<and> present (body (request h) ''redirect_uri'')
        \<and> jwt_verify e (str (body (request h) ''code'')) (jwtSecret (config e)) = Some tok
        \<and> \<not> present (redirect_uri tok) \<longrightarrow>
      handleAuthorizationCode e h
        = (Inl (Thrown (InvalidClientError
             ''The authorization token must include redirect_uri'' 401)), []))
   \<and> (\<forall>tok. present (body (request h) ''code'') \<and> present (body (request h) ''redirect_uri'')
        \<and> jwt_verify e (str (body (request h) ''code'')) (jwtSecret (config e)) = Some tok
        \<and> present (redirect_uri tok)
        \<and> redirect_uri tok \<noteq> body (request h) ''redirect_uri'' \<longrightarrow>
      handleAuthorizationCode e h
        = (Inl (Thrown (InvalidRequestError ''Invalid redirect_uri parameter'' 401)), []))"
  by (simp add: handleAuthorizationCode_def Let_def)

theorem authorization_code_checks_in_order_witness:
  "handleAuthorizationCode (example_env [] (Rejected []))
     (example_handler [(''redirect_uri'', ''https://app/cb'')] [])
     = (Inl (Thrown (InvalidClientError ''Missing 'code' parameter)'' 400)), [])
   \<and> handleAuthorizationCode (example_env [] (Rejected []))
     (example_handler [(''code'', ''code-1'')] [])
     = (Inl (Thrown (InvalidRequestError ''Missing 'redirect_uri' parameter'' 400)), [])
   \<and> handleAuthorizationCode (example_env [] (Rejected []))
     (example_handler [(''code'', ''code-1''), (''redirect_uri'', ''https://app/cb'')] [])
     = (Inl (Thrown (InvalidClientError
          ''Invalid token (supplied as code parameter in the POST body). %s'' 401)), [])
   \<and> handleAuthorizationCode
     (example_env [(''code-1'', example_token\<lparr>redirect_uri := None\<rparr>)] (Rejected []))
     (example_handler [(''code'', ''code-1''), (''redirect_uri'', ''https://app/cb'')] [])
     = (Inl (Thrown (InvalidClientError
          ''The authorization token must include redirect_uri'' 401)), [])
   \<and> handleAuthorizationCode (example_env [(''code-1'', example_token)] (Rejected []))
     (example_handler [(''code'', ''code-1''), (''redirect_uri'', ''https://app/CB'')] [])
     = (Inl (Thrown (InvalidRequestError ''Invalid redirect_uri parameter'' 401)), [])"
proof -
  let ?e0 = "example_env [] (Rejected [])"
  let ?e4 = "example_env [(''code-1'', example_token\<lparr>redirect_uri := None\<rparr>)] (Rejected [])"
  let ?e5 = "example_env [(''code-1'', example_token)] (Rejected [])"
  let ?h1 = "example_handler [(''redirect_uri'', ''https://app/cb'')] []"
  let ?h2 = "example_handler [(''code'', ''code-1'')] []"
  let ?h3 = "example_handler [(''code'', ''code-1''), (''redirect_uri'', ''https://app/cb'')] []"
  let ?h5 = "example_handler [(''code'', ''code-1''), (''redirect_uri'', ''https://app/CB'')] []"
  have p1: "\<not> present (body (request ?h1) ''code'')"
    by (simp add: example_handler_sel present_def)
  have p2: "present (body (request ?h2) ''code'') \<and> \<not> present (body (request ?h2) ''redirect_uri'')"
    by (simp add: example_handler_sel present_def)
  have p3: "present (body (request ?h3) ''code'') \<and> present (body (request ?h3) ''redirect_uri'')
        \<and> jwt_verify ?e0 (str (body (request ?h3) ''code'')) (jwtSecret (config ?e0)) = None"
    by (simp add: example_handler_sel present_def str_def example_env_sel example_config_sel)
  have p4: "present (body (request ?h3) ''code'') \<and> present (body (request ?h3) ''redirect_uri'')
        \<and> jwt_verify ?e4 (str (body (request ?h3) ''code'')) (jwtSecret (config ?e4))
            = Some (example_token\<lparr>redirect_uri := None\<rparr>)
        \<and> \<not> present (redirect_uri (example_token\<lparr>redirect_uri := None\<rparr>))"
    by (simp add: example_handler_sel present_def str_def example_env_sel example_config_sel)
  have p5: "present (body (request ?h5) ''code'') \<and> present (body (request ?h5) ''redirect_uri'')
        \<and> jwt_verify ?e5 (str (body (request ?h5) ''code'')) (jwtSecret (config ?e5))
            = Some example_token
        \<and> present (redirect_uri example_token)
        \<and> redirect_uri example_token \<noteq> body (request ?h5) ''redirect_uri''"
    by (simp add: example_handler_sel present_def str_def example_env_sel example_config_sel
          example_token_def)
  note t1 = authorization_code_checks_in_order [of ?h1 ?e0]
  note t2 = authorization_code_checks_in_order [of ?h2 ?e0]
  note t3 = authorization_code_checks_in_order [of ?h3 ?e0]
  note t4 = authorization_code_checks_in_order [of ?h3 ?e4]
  note t5 = authorization_code_checks_in_order [of ?h5 ?e5]
  show ?thesis
    by (intro conjI)
       (rule t1 [THEN conjunct1, THEN mp, OF p1],
        rule t2 [THEN conjunct2, THEN conjunct1, THEN mp, OF p2],
        rule t3 [THEN conjunct2, THEN conjunct2, THEN conjunct1, THEN mp, OF p3],
        rule t4 [THEN conjunct2, THEN conjunct2, THEN conjunct2, THEN conjunct1,
                 THEN spec, THEN mp, OF p4],
        rule t5 [THEN conjunct2, THEN conjunct2, THEN conjunct2, THEN conjunct2,
                 THEN spec, THEN mp, OF p5])
qed

section \<open>The response\<close>

text \<open>
  The claim about \<^verbatim>\<open>expires_in\<close> as the specification states it, with the default
  lifetime taken as a number of seconds, fails: with a configured lifetime of 60 and a token
  without \<^verbatim>\<open>accessTokensExpireIn\<close> the response has \<^verbatim>\<open>expires_in\<close> 3600; and a
  context with an \<^verbatim>\<open>expires_in\<close> entry replaces the computed value.
\<close>

theorem expires_in_default_counterexample:
  "accessTokensExpireIn example_token = None
   \<and> accessTokenLifetime (config (example_env [] (Rejected []))) = 60
   \<and> sent (finish (example_env [] (Rejected [])) (example_handler [] []) example_token)
        ''expires_in''
      = Some (JNum 3600)
   \<and> accessTokensExpireIn
        (example_token\<lparr>accessTokensExpireIn := Some 10,
                        context := Some [(''expires_in'', JNum 5)]\<rparr>) = Some 10
   \<and> sent (finish (example_env [] (Rejected [])) (example_handler [] [])
           (example_token\<lparr>accessTokensExpireIn := Some 10,
                           context := Some [(''expires_in'', JNum 5)]\<rparr>)) ''expires_in''
      = Some (JNum 5)"
proof -
  let ?e = "example_env [] (Rejected [])"
  let ?h = "example_handler [] []"
  let ?t = "example_token\<lparr>accessTokensExpireIn := Some 10,
                           context := Some [(''expires_in'', JNum 5)]\<rparr>"
  have 1: "sent (finish ?e ?h example_token) ''expires_in'' = Some (JNum 3600)"
    by (subst example_finish [where s = "''openid profile offline_access''"
          and d = "''openid profile offline_access''"])
       (simp_all add: example_token_def tokenResponse_expires_in spread_def expires_def
          present_num_def example_env_sel example_config_sel sent_def)
  have 2: "sent (finish ?e ?h ?t) ''expires_in'' = Some (JNum 5)"
    by (subst example_finish [where s = "''openid profile offline_access''"
          and d = "''openid profile offline_access''"])
       (simp_all add: example_token_def tokenResponse_context spread_def sent_def)
  show ?thesis
    using 1 2 by (simp add: example_token_def example_env_sel example_config_sel)
qed

text \<open>
  C4, as amended. In a successful response whose context has no \<^verbatim>\<open>expires_in\<close> entry,
  \<^verbatim>\<open>expires_in\<close> is \<^verbatim>\<open>accessTokensExpireIn * 60\<close> when the token has that field (and
  it is not zero), and otherwise the configured default access-token lifetime times 60: the
  handler takes the configured lifetime to be in minutes, not in seconds.
\<close>

theorem expires_in_minutes_to_seconds:
  assumes "finish e h tok = Inr r" and "spread (context tok) ''expires_in'' = None"
  shows "res_body r ''expires_in''
         = Some (JNum (case accessTokensExpireIn tok of
                         None \<Rightarrow> accessTokenLifetime (config e) * 60
                       | Some n \<Rightarrow> if n \<noteq> 0 then n * 60
                                  else accessTokenLifetime (config e) * 60))"
proof -
  have "res_body r ''expires_in'' = Some (JNum (expires e tok))"
    using assms(1) by (rule finish_Inr) (simp only: tokenResponse_expires_in [OF assms(2)])
  then show ?thesis
    by (cases "accessTokensExpireIn tok") (simp_all add: expires_def present_num_def)
qed

theorem expires_in_minutes_to_seconds_witness:
  "finish (example_env [] (Rejected [])) (example_handler [] [])
       (example_token\<lparr>accessTokensExpireIn := Some 10\<rparr>)
     = Inr \<lparr>res_headers = [(''Cache-Control'', ''no-store''), (''Pragma'', ''no-cache'')],
            res_body =
              tokenResponse (example_env [] (Rejected []))
                (example_token\<lparr>accessTokensExpireIn := Some 10\<rparr>) 600
                (Some ''signed-id-token'') (Some ''signed-token'')\<rparr>
   \<and> spread (context (example_token\<lparr>accessTokensExpireIn := Some 10\<rparr>)) ''expires_in'' = None
   \<and> tokenResponse (example_env [] (Rejected []))
        (example_token\<lparr>accessTokensExpireIn := Some 10\<rparr>) 600
        (Some ''signed-id-token'') (Some ''signed-token'') ''expires_in'' = Some (JNum 600)
   \<and> finish (example_env [] (Rejected [])) (example_handler [] []) example_token
     = Inr \<lparr>res_headers = [(''Cache-Control'', ''no-store''), (''Pragma'', ''no-cache'')],
            res_body =
              tokenResponse (example_env [] (Rejected [])) example_token 3600
                (Some ''signed-id-token'') (Some ''signed-token'')\<rparr>
   \<and> spread (context example_token) ''expires_in'' = None
   \<and> tokenResponse (example_env [] (Rejected [])) example_token 3600
        (Some ''signed-id-token'') (Some ''signed-token'') ''expires_in'' = Some (JNum 3600)"
proof -
  let ?e = "example_env [] (Rejected [])"
  let ?h = "example_handler [] []"
  let ?t = "example_token\<lparr>accessTokensExpireIn := Some 10\<rparr>"
  let ?r = "\<lparr>res_headers = [(''Cache-Control'', ''no-store''), (''Pragma'', ''no-cache'')],
            res_body = tokenResponse ?e ?t 600 (Some ''signed-id-token'') (Some ''signed-token'')\<rparr>"
  let ?rd = "\<lparr>res_headers = [(''Cache-Control'', ''no-store''), (''Pragma'', ''no-cache'')],
            res_body = tokenResponse ?e example_token 3600
                         (Some ''signed-id-token'') (Some ''signed-token'')\<rparr>"
  have f: "finish ?e ?h ?t = Inr ?r"
    by (subst example_finish [where s = "''openid profile offline_access''"
          and d = "''openid profile offline_access''"])
       (simp_all add: example_token_def example_scopes has_def present_def expires_def
          present_num_def)
  have c: "spread (context ?t) ''expires_in'' = None"
    by (simp add: example_token_def spread_def)
  have f0: "finish ?e ?h example_token = Inr ?rd"
    by (subst example_finish [where s = "''openid profile offline_access''"
          and d = "''openid profile offline_access''"])
       (simp_all add: example_token_def example_scopes has_def present_def expires_def
          present_num_def example_env_sel example_config_sel)
  have c0: "spread (context example_token) ''expires_in'' = None"
    by (simp add: example_token_def spread_def)
  have 1: "tokenResponse ?e ?t 600 (Some ''signed-id-token'') (Some ''signed-token'')
             ''expires_in'' = Some (JNum 600)"
    using expires_in_minutes_to_seconds [OF f c] by simp
  have 2: "tokenResponse ?e example_token 3600 (Some ''signed-id-token'') (Some ''signed-token'')
             ''expires_in'' = Some (JNum 3600)"
    using expires_in_minutes_to_seconds [OF f0 c0]
    by (simp add: example_token_def example_env_sel example_config_sel)
  show ?thesis
    by (intro conjI) (rule f, rule c, rule 1, rule f0, rule c0, rule 2)
qed

text \<open>
  The claim about \<^verbatim>\<open>id_token\<close> as the specification states it fails when the context
  has an \<^verbatim>\<open>id_token\<close> entry: the response then includes it although the token has no
  user and its scope has no \<^verbatim>\<open>openid\<close>.
\<close>

theorem id_token_from_context_counterexample:
  "user (example_token\<lparr>user := None, scope := Some ''launch'',
                        context := Some [(''id_token'', JStr ''from-context'')]\<rparr>) = None
   \<and> sent (finish (example_env [] (Rejected [])) (example_handler [] [])
           (example_token\<lparr>user := None, scope := Some ''launch'',
                           context := Some [(''id_token'', JStr ''from-context'')]\<rparr>))
        ''id_token''
      = Some (JStr ''from-context'')"
  by (subst example_finish [where s = "''launch''" and d = "''launch''"])
     (simp_all add: example_token_def tokenResponse_context spread_def sent_def)

text \<open>
  C6, as amended. In the response built by \<^verbatim>\<open>finish\<close>, when the context has no
  \<^verbatim>\<open>id_token\<close> entry, \<^verbatim>\<open>id_token\<close> is included iff the token's user is present and
  the parsed scope set contains \<^verbatim>\<open>openid\<close> and contains \<^verbatim>\<open>profile\<close> or
  \<^verbatim>\<open>fhirUser\<close>; when the context has no \<^verbatim>\<open>refresh_token\<close> entry,
  \<^verbatim>\<open>refresh_token\<close> is included iff the scope set contains \<^verbatim>\<open>offline_access\<close> or
  \<^verbatim>\<open>online_access\<close>. The scope set is that of the URL-decoded scope of the token.
\<close>

theorem id_and_refresh_token_gating:
  assumes "finish e h tok = Inr r"
  shows "\<exists>d. decodeURIComponent (case scope tok of None \<Rightarrow> ''undefined'' | Some s \<Rightarrow> s) = Some d
       \<and> (spread (context tok) ''id_token'' = None \<longrightarrow>
            (res_body r ''id_token'' \<noteq> None)
              = (present (user tok) \<and> has (ScopeSet d) ''openid''
                  \<and> (has (ScopeSet d) ''profile'' \<or> has (ScopeSet d) ''fhirUser'')))
       \<and> (spread (context tok) ''refresh_token'' = None \<longrightarrow>
            (res_body r ''refresh_token'' \<noteq> None)
              = (has (ScopeSet d) ''offline_access'' \<or> has (ScopeSet d) ''online_access''))"
  using assms
proof (rule finish_Inr)
  fix d idt
  assume d: "decodeURIComponent (case scope tok of None \<Rightarrow> ''undefined'' | Some s \<Rightarrow> s) = Some d"
    and b: "res_body r =
         tokenResponse e tok (expires e tok)
           (if present (user tok) \<and> has (ScopeSet d) ''openid''
                \<and> (has (ScopeSet d) ''profile'' \<or> has (ScopeSet d) ''fhirUser'')
            then Some idt else None)
           (if has (ScopeSet d) ''offline_access'' \<or> has (ScopeSet d) ''online_access''
            then Some (generateRefreshToken e tok) else None)"
  have 1: "(res_body r ''id_token'' \<noteq> None)
              = (present (user tok) \<and> has (ScopeSet d) ''openid''
                  \<and> (has (ScopeSet d) ''profile'' \<or> has (ScopeSet d) ''fhirUser''))"
    if c: "spread (context tok) ''id_token'' = None"
    unfolding b tokenResponse_id_token [OF c] by simp
  have 2: "(res_body r ''refresh_token'' \<noteq> None)
              = (has (ScopeSet d) ''offline_access'' \<or> has (ScopeSet d) ''online_access'')"
    if c: "spread (context tok) ''refresh_token'' = None"
    unfolding b tokenResponse_refresh_token [OF c] by simp
  show ?thesis
  proof (intro exI conjI impI)
    show "decodeURIComponent (case scope tok of None \<Rightarrow> ''undefined'' | Some s \<Rightarrow> s) = Some d"
      by (rule d)
  qed (rule 1, assumption, rule 2, assumption)
qed

theorem id_and_refresh_token_gating_witness:
  "sent (finish (example_env [] (Rejected [])) (example_handler [] [])
           (example_token\<lparr>scope := Some ''openid profile''\<rparr>)) ''id_token''
     = Some (JStr ''signed-id-token'')
   \<and> sent (finish (example_env [] (Rejected [])) (example_handler [] [])
           (example_token\<lparr>scope := Some ''openid profile''\<rparr>)) ''refresh_token''
     = None
   \<and> sent (finish (example_env [] (Rejected [])) (example_handler [] [])
           (example_token\<lparr>scope := Some ''openid''\<rparr>)) ''id_token''
     = None
   \<and> sent (finish (example_env [] (Rejected [])) (example_handler [] [])
           (example_token\<lparr>scope := Some ''offline_access''\<rparr>)) ''id_token''
     = None
   \<and> sent (finish (example_env [] (Rejected [])) (example_handler [] [])
           (example_token\<lparr>scope := Some ''offline_access''\<rparr>)) ''refresh_token''
     = Some (JStr ''signed-token'')"
proof -
  let ?e = "example_env [] (Rejected [])"
  let ?h = "example_handler [] []"
  have "\<exists>r. finish ?e ?h (example_token\<lparr>scope := Some ''openid profile''\<rparr>) = Inr r"
    by (subst example_finish [where s = "''openid profile''" and d = "''openid profile''"])
       (simp_all add: example_token_def)
  then obtain r1 where f1: "finish ?e ?h (example_token\<lparr>scope := Some ''openid profile''\<rparr>) = Inr r1"
    by blast
  have "\<exists>r. finish ?e ?h (example_token\<lparr>scope := Some ''openid''\<rparr>) = Inr r"
    by (subst example_finish [where s = "''openid''" and d = "''openid''"])
       (simp_all add: example_token_def)
  then obtain r2 where f2: "finish ?e ?h (example_token\<lparr>scope := Some ''openid''\<rparr>) = Inr r2"
    by blast
  have "\<exists>r. finish ?e ?h (example_token\<lparr>scope := Some ''offline_access''\<rparr>) = Inr r"
    by (subst example_finish [where s = "''offline_access''" and d = "''offline_access''"])
       (simp_all add: example_token_def)
  then obtain r3 where f3: "finish ?e ?h (example_token\<lparr>scope := Some ''offline_access''\<rparr>) = Inr r3"
    by blast
  have 1: "res_body r1 ''id_token'' \<noteq> None \<and> \<not> res_body r1 ''refresh_token'' \<noteq> None"
    using id_and_refresh_token_gating [OF f1]
    by (simp add: example_scopes has_def) (simp add: example_token_def spread_def present_def)
  have 2: "\<not> res_body r2 ''id_token'' \<noteq> None \<and> \<not> res_body r2 ''refresh_token'' \<noteq> None"
    using id_and_refresh_token_gating [OF f2]
    by (simp add: example_scopes has_def) (simp add: example_token_def spread_def present_def)
  have 3: "\<not> res_body r3 ''id_token'' \<noteq> None \<and> res_body r3 ''refresh_token'' \<noteq> None"
    using id_and_refresh_token_gating [OF f3]
    by (simp add: example_scopes has_def) (simp add: example_token_def spread_def present_def)
  have e1: "finish ?e ?h (example_token\<lparr>scope := Some ''openid profile''\<rparr>)
      = Inr \<lparr>res_headers = [(''Cache-Control'', ''no-store''), (''Pragma'', ''no-cache'')],
             res_body = tokenResponse ?e (example_token\<lparr>scope := Some ''openid profile''\<rparr>)
               3600 (Some ''signed-id-token'') None\<rparr>"
    by (subst example_finish [where s = "''openid profile''" and d = "''openid profile''"])
       (simp_all add: example_token_def example_scopes has_def present_def expires_def
          present_num_def example_env_sel example_config_sel)
  have e3: "finish ?e ?h (example_token\<lparr>scope := Some ''offline_access''\<rparr>)
      = Inr \<lparr>res_headers = [(''Cache-Control'', ''no-store''), (''Pragma'', ''no-cache'')],
             res_body = tokenResponse ?e (example_token\<lparr>scope := Some ''offline_access''\<rparr>)
               3600 None (Some ''signed-token'')\<rparr>"
    by (subst example_finish [where s = "''offline_access''" and d = "''offline_access''"])
       (simp_all add: example_token_def example_scopes has_def present_def expires_def
          present_num_def example_env_sel example_config_sel)
  have v1: "sent (finish ?e ?h (example_token\<lparr>scope := Some ''openid profile''\<rparr>)) ''id_token''
            = Some (JStr ''signed-id-token'')"
    using 1 unfolding e1
    by (simp add: sent_def tokenResponse_id_token spread_def example_token_def)
  have v3: "sent (finish ?e ?h (example_token\<lparr>scope := Some ''offline_access''\<rparr>))
              ''refresh_token'' = Some (JStr ''signed-token'')"
    using 3 unfolding e3
    by (simp add: sent_def tokenResponse_refresh_token spread_def example_token_def)
  show ?thesis
    using 1 2 3 v1 v3 by (simp add: f1 f2 f3 sent_def)
qed

text \<open>
  C9. The \<^verbatim>\<open>access_token\<close> of every successful response is assigned after the context is
  spread, so it is the freshly signed token whatever the context contains, also when the
  context has an \<^verbatim>\<open>access_token\<close> entry.
\<close>

theorem access_token_not_overridden:
  assumes "finish e h tok = Inr r"
  shows "res_body r ''access_token''
         = Some (JStr (jwt_sign e (TokenClaims (accessTokenClaims tok)) (jwtSecret (config e))
                   \<lparr>algorithm = None, expiresIn = Seconds (expires e tok)\<rparr>))"
  using assms by (rule finish_Inr) (simp only: tokenResponse_access_token)

theorem access_token_not_overridden_witness:
  "spread (context (example_token\<lparr>context := Some [(''access_token'', JStr ''from-context'')]\<rparr>))
     ''access_token'' = Some (JStr ''from-context'')
   \<and> sent (finish (example_env [] (Rejected [])) (example_handler [] [])
           (example_token\<lparr>context := Some [(''access_token'', JStr ''from-context'')]\<rparr>))
        ''access_token''
      = Some (JStr ''signed-token'')"
proof -
  let ?e = "example_env [] (Rejected [])"
  let ?h = "example_handler [] []"
  let ?t = "example_token\<lparr>context := Some [(''access_token'', JStr ''from-context'')]\<rparr>"
  have "\<exists>r. finish ?e ?h ?t = Inr r"
    by (subst example_finish [where s = "''openid profile offline_access''"
          and d = "''openid profile offline_access''"])
       (simp_all add: example_token_def)
  then obtain r where f: "finish ?e ?h ?t = Inr r"
    by blast
  have "res_body r ''access_token'' = Some (JStr ''signed-token'')"
    using access_token_not_overridden [OF f] by (simp add: example_env_sel)
  then show ?thesis
    by (simp add: f spread_def sent_def)
qed

section \<open>Basic authentication\<close>

text \<open>
  The claim about requests without Basic credentials as the specification states it fails
  under fault injection: with \<^verbatim>\<open>auth_error\<close> set to \<^verbatim>\<open>auth_invalid_client_secret\<close>, a
  request without \<^verbatim>\<open>Authorization\<close> header for a token without \<^verbatim>\<open>client_secret\<close>
  is refused, with \<^verbatim>\<open>InvalidClientError\<close>.
\<close>

theorem basic_auth_fault_injection_counterexample:
  "headers (request (example_handler [] [])) ''authorization'' = None
   \<and> client_secret (example_token\<lparr>auth_error := Some ''auth_invalid_client_secret''\<rparr>) = None
   \<and> validateBasicAuth (example_env [] (Rejected [])) (example_handler [] [])
        (example_token\<lparr>auth_error := Some ''auth_invalid_client_secret''\<rparr>)
      = Inl (Thrown (InvalidClientError ''Simulated invalid client secret error'' 401))"
  by (simp add: validateBasicAuth_def example_handler_sel example_token_def)

text \<open>
  C7, as amended. When the token's \<^verbatim>\<open>auth_error\<close> is not
  \<^verbatim>\<open>auth_invalid_client_secret\<close> and the request has no \<^verbatim>\<open>Authorization\<close> header or
  one that does not start with \<^verbatim>\<open>basic\<close> in either case, the request is allowed iff the
  token has no (non-empty) \<^verbatim>\<open>client_secret\<close>; if it has one, the validator fails with
  \<^verbatim>\<open>InvalidRequestError\<close> 401.
\<close>

theorem basic_auth_without_header:
  assumes "auth_error tok \<noteq> Some ''auth_invalid_client_secret''"
    and "\<forall>s. headers (request h) ''authorization'' = Some s \<longrightarrow> \<not> search_basic s"
  shows "((validateBasicAuth e h tok = Inr ()) = (\<not> present (client_secret tok)))
       \<and> (present (client_secret tok) \<longrightarrow>
            validateBasicAuth e h tok
              = Inl (Thrown (InvalidRequestError
                  ''Basic authentication is required for confidential clients'' 401)))"
proof -
  have c: "\<not> present (headers (request h) ''authorization'')
           \<or> \<not> search_basic (str (headers (request h) ''authorization''))"
    using assms(2) by (cases "headers (request h) ''authorization''") (simp_all add: present_def str_def)
  have v: "validateBasicAuth e h tok =
      (if present (client_secret tok)
       then Inl (Thrown (InvalidRequestError
                  ''Basic authentication is required for confidential clients'' 401))
       else Inr ())"
    using assms(1) c by (simp add: validateBasicAuth_def Let_def)
  show ?thesis by (simp add: v)
qed

theorem basic_auth_without_header_witness:
  "validateBasicAuth (example_env [] (Rejected [])) (example_handler [] []) example_token
     = Inr ()
   \<and> validateBasicAuth (example_env [] (Rejected []))
        (example_handler [] [(''authorization'', ''Bearer abc'')])
        (example_token\<lparr>client_secret := Some ''s3cr3t''\<rparr>)
     = Inl (Thrown (InvalidRequestError
              ''Basic authentication is required for confidential clients'' 401))"
proof -
  let ?e = "example_env [] (Rejected [])"
  have 1: "validateBasicAuth ?e (example_handler [] []) example_token = Inr ()"
    using basic_auth_without_header [of example_token "example_handler [] []" ?e]
    by (simp add: example_token_def example_handler_sel present_def)
  have 2: "validateBasicAuth ?e (example_handler [] [(''authorization'', ''Bearer abc'')])
             (example_token\<lparr>client_secret := Some ''s3cr3t''\<rparr>)
           = Inl (Thrown (InvalidRequestError
                    ''Basic authentication is required for confidential clients'' 401))"
    using basic_auth_without_header [of "example_token\<lparr>client_secret := Some ''s3cr3t''\<rparr>"
        "example_handler [] [(''authorization'', ''Bearer abc'')]" ?e]
    by (simp add: example_token_def example_handler_sel present_def search_basic_def lower_def)
  show ?thesis using 1 2 by simp
qed

section \<open>Key sets\<close>

text \<open>
  C8. A fetch of a key set issues exactly one request, with the header
  \<^verbatim>\<open>accept: application/json\<close>; a rejected request and a response that is not
  \<^verbatim>\<open>ok\<close> both end in \<^verbatim>\<open>InvalidClientError\<close> 401, and whatever \<^verbatim>\<open>fetchJwks\<close>
  throws is that error: nothing else reaches the caller.
\<close>

theorem fetchJwks_client_error:
  "snd (fetchJwks e url) = [(url, [(''accept'', ''application/json'')])]
   \<and> ((\<forall>m. fetch e url [(''accept'', ''application/json'')] = Rejected m \<longrightarrow>
          fst (fetchJwks e url)
            = Inl (Thrown (InvalidClientError ''Failed to fetch JWKS from %s. %s'' 401)))
      \<and> (\<forall>st txt doc. fetch e url [(''accept'', ''application/json'')] = Resolved False st txt doc \<longrightarrow>
          fst (fetchJwks e url)
            = Inl (Thrown (InvalidClientError ''Failed to fetch JWKS from %s. %s'' 401)))
      \<and> (\<forall>x. fst (fetchJwks e url) = Inl x \<longrightarrow>
            x = Thrown (InvalidClientError ''Failed to fetch JWKS from %s. %s'' 401)))"
  by (auto simp: fetchJwks_def split: fetch_result.splits option.splits if_splits)

theorem fetchJwks_client_error_witness:
  "fetch (example_env [] (Rejected ''ECONNREFUSED'')) ''https://client/jwks''
       [(''accept'', ''application/json'')] = Rejected ''ECONNREFUSED''
   \<and> fetchJwks (example_env [] (Rejected ''ECONNREFUSED'')) ''https://client/jwks''
     = (Inl (Thrown (InvalidClientError ''Failed to fetch JWKS from %s. %s'' 401)),
        [(''https://client/jwks'', [(''accept'', ''application/json'')])])
   \<and> fetch (example_env [] (Resolved False 503 ''Service Unavailable'' None))
       ''https://client/jwks'' [(''accept'', ''application/json'')]
     = Resolved False 503 ''Service Unavailable'' None
   \<and> fetchJwks (example_env [] (Resolved False 503 ''Service Unavailable'' None))
       ''https://client/jwks''
     = (Inl (Thrown (InvalidClientError ''Failed to fetch JWKS from %s. %s'' 401)),
        [(''https://client/jwks'', [(''accept'', ''application/json'')])])"
proof -
  let ?e1 = "example_env [] (Rejected ''ECONNREFUSED'')"
  let ?e2 = "example_env [] (Resolved False 503 ''Service Unavailable'' None)"
  let ?u = "''https://client/jwks''"
  let ?err = "Inl (Thrown (InvalidClientError ''Failed to fetch JWKS from %s. %s'' 401))"
  have 1: "fetch ?e1 ?u [(''accept'', ''application/json'')] = Rejected ''ECONNREFUSED''"
    by (simp add: example_env_sel)
  have 2: "fetch ?e2 ?u [(''accept'', ''application/json'')]
           = Resolved False 503 ''Service Unavailable'' None"
    by (simp add: example_env_sel)
  note t1 = fetchJwks_client_error [of ?e1 ?u]
  note t2 = fetchJwks_client_error [of ?e2 ?u]
  have s1: "snd (fetchJwks ?e1 ?u) = [(?u, [(''accept'', ''application/json'')])]"
    by (rule t1 [THEN conjunct1])
  have f1: "fst (fetchJwks ?e1 ?u) = ?err"
    by (rule t1 [THEN conjunct2, THEN conjunct1, THEN spec, THEN mp, OF 1])
  have s2: "snd (fetchJwks ?e2 ?u) = [(?u, [(''accept'', ''application/json'')])]"
    by (rule t2 [THEN conjunct1])
  have f2: "fst (fetchJwks ?e2 ?u) = ?err"
    by (rule t2 [THEN conjunct2, THEN conjunct2, THEN conjunct1,
                 THEN spec, THEN spec, THEN spec, THEN mp, OF 2])
  have a: "fetchJwks ?e1 ?u = (?err, [(?u, [(''accept'', ''application/json'')])])"
    by (rule prod_eqI) (simp_all only: fst_conv snd_conv f1 s1)
  have b: "fetchJwks ?e2 ?u = (?err, [(?u, [(''accept'', ''application/json'')])])"
    by (rule prod_eqI) (simp_all only: fst_conv snd_conv f2 s2)
  show ?thesis
    by (intro conjI) (rule 1, rule a, rule 2, rule b)
qed

text \<open>
  C10. The \<^verbatim>\<open>jku\<close> header is compared with the registered \<^verbatim>\<open>jwks_url\<close> only when
  the client token has one. For a client token without \<^verbatim>\<open>jwks_url\<close>, an assertion with
  any \<^verbatim>\<open>jku\<close> header passes that step, and the key set is fetched from the URL of the
  header: resolving the key set is the fetch from that URL, and it is the one request that
  validating the assertion issues once the checks on its claims have passed.
\<close>

theorem jku_unchecked_without_registered_url:
  assumes "\<not> present (jwks_url client)" and "jku jwtHeaders = Some url" and "url \<noteq> []"
  shows "resolveJwks e client jwtHeaders = fetchJwks e url
       \<and> snd (resolveJwks e client jwtHeaders) = [(url, [(''accept'', ''application/json'')])]
       \<and> (\<forall>h a token. jwt_decode e a = Some (jwtHeaders, token)
             \<and> checkAssertion h client jwtHeaders token = Inr () \<longrightarrow>
           snd (validateClientAssertion e h a client)
             = [(url, [(''accept'', ''application/json'')])])"
proof -
  have r: "resolveJwks e client jwtHeaders = fetchJwks e url"
    using assms by (simp add: resolveJwks_def present_def str_def)
  have s: "snd (fetchJwks e url) = [(url, [(''accept'', ''application/json'')])]"
    by (simp add: fetchJwks_def)
  have "snd (validateClientAssertion e h a client) = [(url, [(''accept'', ''application/json'')])]"
    if "jwt_decode e a = Some (jwtHeaders, token)"
      and "checkAssertion h client jwtHeaders token = Inr ()" for h a token
    using that s
    by (cases "fetchJwks e url") (auto simp: validateClientAssertion_def r split: sum.splits)
  then show ?thesis using r s by auto
qed

theorem jku_unchecked_without_registered_url_witness:
  "\<not> present (jwks_url example_token)
   \<and> resolveJwks (example_env [] (Rejected ''ECONNREFUSED'')) example_token
        \<lparr>typ = Some ''JWT'', kid = Some ''k1'', alg = Some ''RS384'',
         jku = Some ''https://elsewhere/jwks''\<rparr>
      = (Inl (Thrown (InvalidClientError ''Failed to fetch JWKS from %s. %s'' 401)),
         [(''https://elsewhere/jwks'', [(''accept'', ''application/json'')])])
   \<and> checkAssertion (example_handler [] []) example_token
        \<lparr>typ = Some ''JWT'', kid = Some ''k1'', alg = Some ''RS384'',
         jku = Some ''https://elsewhere/jwks''\<rparr>
        [(''iss'', JStr ''app''), (''sub'', JStr ''app''),
         (''aud'', JStr ''http://launcher/auth/token''), (''exp'', JNum 1900000000),
         (''jti'', JStr ''j1'')]
      = Inr ()
   \<and> snd (validateClientAssertion
          ((example_env [] (Rejected ''ECONNREFUSED''))
             \<lparr>jwt_decode := \<lambda>a. Some
                (\<lparr>typ = Some ''JWT'', kid = Some ''k1'', alg = Some ''RS384'',
                  jku = Some ''https://elsewhere/jwks''\<rparr>,
                 [(''iss'', JStr ''app''), (''sub'', JStr ''app''),
                  (''aud'', JStr ''http://launcher/auth/token''), (''exp'', JNum 1900000000),
                  (''jti'', JStr ''j1'')])\<rparr>)
          (example_handler [] []) ''assertion'' example_token)
      = [(''https://elsewhere/jwks'', [(''accept'', ''application/json'')])]"
proof -
  let ?e = "example_env [] (Rejected ''ECONNREFUSED'')"
  let ?hd = "\<lparr>typ = Some ''JWT'', kid = Some ''k1'', alg = Some ''RS384'',
         jku = Some ''https://elsewhere/jwks''\<rparr>"
  let ?cl = "[(''iss'', JStr ''app''), (''sub'', JStr ''app''),
         (''aud'', JStr ''http://launcher/auth/token''), (''exp'', JNum 1900000000),
         (''jti'', JStr ''j1'')]"
  let ?e' = "?e\<lparr>jwt_decode := \<lambda>a. Some (?hd, ?cl)\<rparr>"
  let ?h = "example_handler [] []"
  have n: "\<not> present (jwks_url example_token)"
    by (simp add: example_token_def present_def)
  have j: "jku ?hd = Some ''https://elsewhere/jwks''" by simp
  have u: "''https://elsewhere/jwks'' \<noteq> []" by simp
  have r: "resolveJwks ?e example_token ?hd = fetchJwks ?e ''https://elsewhere/jwks''"
    by (rule jku_unchecked_without_registered_url [OF n j u, THEN conjunct1])
  have 1: "resolveJwks ?e example_token ?hd
      = (Inl (Thrown (InvalidClientError ''Failed to fetch JWKS from %s. %s'' 401)),
         [(''https://elsewhere/jwks'', [(''accept'', ''application/json'')])])"
    unfolding r by (simp add: fetchJwks_def example_env_sel)
  have c: "checkAssertion ?h example_token ?hd ?cl = Inr ()"
    by (simp add: checkAssertion_def truthy_opt_def present_def example_token_def strict_eq_def
          replace_scheme_def example_handler_sel)
  have d: "jwt_decode ?e' ''assertion'' = Some (?hd, ?cl) \<and> checkAssertion ?h example_token ?hd ?cl = Inr ()"
    using c by simp
  have 2: "snd (validateClientAssertion ?e' ?h ''assertion'' example_token)
      = [(''https://elsewhere/jwks'', [(''accept'', ''application/json'')])]"
    by (rule jku_unchecked_without_registered_url [OF n j u, THEN conjunct2, THEN conjunct2,
          THEN spec, THEN spec, THEN spec, THEN mp, OF d])
  show ?thesis
    by (intro conjI) (rule n, rule 1, rule c, rule 2)
qed

end
